theory Spec2Isabelle
  imports Main "HOL-Library.Multiset"
begin

section \<open>JavaScript values\<close>

text \<open>
  The pages of \<^verbatim>\<open>app/webapp-ui/frontend/src/pages\<close> compute on the JSON that the REST
  API returns. A value is \<^verbatim>\<open>undefined\<close>, \<^verbatim>\<open>null\<close>, a boolean, a number, a
  string, an array or a plain object. An object is the list of its own properties in
  enumeration order. A number that is an integer is \<open>JNum\<close> of it (an integer beyond
  \<open>2 ^ 53\<close> stands for the double nearest to it); a number that is not an integer is
  \<open>JDecimal\<close> of the text that JavaScript prints for it (\<^verbatim>\<open>1.5\<close>, \<^verbatim>\<open>2.5e-7\<close>), which
  is all that the pages need: they test numbers for truthiness, compare them and print
  them. A string is a list of code
  units below 256. \<^verbatim>\<open>===\<close> and \<^verbatim>\<open>!==\<close> are equality of values: the pages apply
  them to strings, to numbers, and to a form field against the asset field it was
  copied from.
\<close>

datatype jsval =
    JUndefined
  | JNull
  | JBool bool
  | JNum int
  | JDecimal string
  | JStr string
  | JArr "jsval list"
  | JObj "(string \<times> jsval) list"

text \<open>Truthiness, as \<^verbatim>\<open>||\<close>, \<^verbatim>\<open>&&\<close>, \<^verbatim>\<open>?:\<close> and \<^verbatim>\<open>if\<close> test it.\<close>

fun truthy :: "jsval \<Rightarrow> bool" where
  "truthy JUndefined = False"
| "truthy JNull = False"
| "truthy (JBool b) = b"
| "truthy (JNum n) = (n \<noteq> 0)"
| "truthy (JDecimal t) = True"
| "truthy (JStr s) = (s \<noteq> [])"
| "truthy (JArr xs) = True"
| "truthy (JObj kvs) = True"

text \<open>\<^verbatim>\<open>a || b\<close>\<close>

definition js_or :: "jsval \<Rightarrow> jsval \<Rightarrow> jsval" where
  "js_or a b = (if truthy a then a else b)"

fun nullish :: "jsval \<Rightarrow> bool" where
  "nullish JUndefined = True"
| "nullish JNull = True"
| "nullish v = False"

text \<open>
  Reading a named property. The keys the pages read (\<^verbatim>\<open>name\<close>, \<^verbatim>\<open>event_type\<close>,
  \<^verbatim>\<open>total_assets\<close>, ...) are data keys, never array indices or inherited members, so
  only a plain object has them; every other value answers \<^verbatim>\<open>undefined\<close>.
  \<open>own_prop\<close> is the read on a value that is not \<^verbatim>\<open>null\<close> or \<^verbatim>\<open>undefined\<close>;
  \<open>dot\<close> is \<^verbatim>\<open>v.k\<close>, which throws a TypeError on those two; \<open>opt_dot\<close> is
  \<^verbatim>\<open>v?.k\<close>.
\<close>

datatype thrown =
    TypeError
  | Error string
  | Rejection jsval

fun own_prop :: "jsval \<Rightarrow> string \<Rightarrow> jsval" where
  "own_prop (JObj kvs) k = (case map_of kvs k of Some v \<Rightarrow> v | None \<Rightarrow> JUndefined)"
| "own_prop v k = JUndefined"

definition dot :: "jsval \<Rightarrow> string \<Rightarrow> thrown + jsval" where
  "dot v k = (if nullish v then Inl TypeError else Inr (own_prop v k))"

definition opt_dot :: "jsval \<Rightarrow> string \<Rightarrow> jsval" where
  "opt_dot v k = (if nullish v then JUndefined else own_prop v k)"

text \<open>Decimal digits of an array index.\<close>

fun show_nat :: "nat \<Rightarrow> string" where
  "show_nat n =
     (if n < 10 then [char_of (48 + n)]
      else show_nat (n div 10) @ [char_of (48 + n mod 10)])"

declare show_nat.simps [simp del]

fun join :: "string \<Rightarrow> string list \<Rightarrow> string" where
  "join sep [] = []"
| "join sep [x] = x"
| "join sep (x # y # ys) = x @ sep @ join sep (y # ys)"

text \<open>
  The text of a number (\<^verbatim>\<open>Number.prototype.toString\<close>), for a number that is a
  non-negative integer. Below \<open>2 ^ 53\<close> every integer is a double and is printed digit
  by digit. From there on a double is a multiple of a power of two: \<open>to_double\<close> is
  the double nearest to an integer (ties go to the even mantissa), and JavaScript prints
  of it the shortest digits that still round to it (\<open>rounds_to\<close>), the closest ones
  if several are as short, followed by zeros up to 21 digits and in exponent form beyond.
\<close>

function digits :: "int \<Rightarrow> string" where
  "digits n =
     (if n < 10 then [char_of (48 + n)] else digits (n div 10) @ [char_of (48 + n mod 10)])"
  by pat_completeness auto
termination
  by (relation "measure nat") auto

declare digits.simps [simp del]

function floor_log2 :: "int \<Rightarrow> nat" where
  "floor_log2 n = (if n < 2 then 0 else Suc (floor_log2 (n div 2)))"
  by pat_completeness auto
termination
  by (relation "measure nat") auto

declare floor_log2.simps [simp del]

definition to_double :: "int \<Rightarrow> int" where
  "to_double n =
     (if n < 2 ^ 53 then n
      else
        (let u = 2 ^ (floor_log2 n - 52); q = n div u; r = n mod u
         in (if 2 * r < u \<or> 2 * r = u \<and> even q then q else q + 1) * u))"

definition rounds_to :: "int \<Rightarrow> int \<Rightarrow> bool" where
  "rounds_to x v =
     (let u = 2 ^ (floor_log2 x - 52); m = x div u;
          below = (if m = 2 ^ 52 then u div 2 else u);
          lo = 2 * x - below; hi = 2 * x + u
      in lo < 2 * v \<and> 2 * v < hi \<or> even m \<and> (2 * v = lo \<or> 2 * v = hi))"

text \<open>The digit strings \<open>s\<close> of length \<open>k\<close> with an exponent \<open>p\<close> such that \<open>s * 10 ^ p\<close> rounds to \<open>x\<close>.\<close>

definition candidates :: "int \<Rightarrow> nat \<Rightarrow> (int \<times> nat) list" where
  "candidates x k =
     (let N = length (digits x) in
      [(s, p). p \<leftarrow> [N - k, Suc N - k], s \<leftarrow> [x div 10 ^ p, x div 10 ^ p + 1],
               10 ^ (k - 1) \<le> s \<and> s < 10 ^ k \<and> rounds_to x (s * 10 ^ p)])"

definition distance :: "int \<Rightarrow> int \<times> nat \<Rightarrow> int" where
  "distance x c = \<bar>fst c * 10 ^ snd c - x\<bar>"

fun closest :: "int \<Rightarrow> (int \<times> nat) list \<Rightarrow> int \<times> nat" where
  "closest x [] = (x, 0)"
| "closest x [c] = c"
| "closest x (c # d # cs) =
     (let b = closest x (d # cs) in
      if distance x c < distance x b \<or> distance x c = distance x b \<and> even (fst c)
      then c else b)"

definition shortest :: "int \<Rightarrow> int \<times> nat" where
  "shortest x =
     (case filter (\<lambda>cs. cs \<noteq> []) (map (candidates x) [1..<Suc (length (digits x))]) of
        [] \<Rightarrow> (x, 0)
      | cs # rest \<Rightarrow> closest x cs)"

definition number_text :: "int \<Rightarrow> string" where
  "number_text n =
     (if n < 2 ^ 53 then digits n
      else if 2 ^ 1024 \<le> to_double n then ''Infinity''
      else
        (let c = shortest (to_double n); ds = digits (fst c); k = length ds; e = snd c + k
         in if e \<le> 21 then ds @ replicate (snd c) (CHR ''0'')
            else (if k = 1 then ds else hd ds # CHR ''.'' # tl ds) @ ''e+'' @ show_nat (e - 1)))"

text \<open>\<^verbatim>\<open>`${v}`\<close>: the string a template literal puts in for a value.\<close>

fun to_string :: "jsval \<Rightarrow> string" where
  "to_string JUndefined = ''undefined''"
| "to_string JNull = ''null''"
| "to_string (JBool b) = (if b then ''true'' else ''false'')"
| "to_string (JNum n) = (if n < 0 then CHR ''-'' # number_text (- n) else number_text n)"
| "to_string (JDecimal t) = t"
| "to_string (JStr s) = s"
| "to_string (JArr xs) =
     join '','' (map (\<lambda>x. if nullish x then [] else to_string x) xs)"
| "to_string (JObj kvs) = ''[object Object]''"

text \<open>
  \<^verbatim>\<open>Object.entries(v)\<close> and \<^verbatim>\<open>Object.keys(v)\<close>: the own enumerable properties. An
  array and a string have their indices, a number and a boolean have none, and
  \<^verbatim>\<open>null\<close> and \<^verbatim>\<open>undefined\<close> throw.
\<close>

fun own_entries :: "jsval \<Rightarrow> (string \<times> jsval) list" where
  "own_entries (JObj kvs) = kvs"
| "own_entries (JArr xs) = zip (map show_nat [0..<length xs]) xs"
| "own_entries (JStr s) = zip (map show_nat [0..<length s]) (map (\<lambda>c. JStr [c]) s)"
| "own_entries v = []"

definition Object_entries :: "jsval \<Rightarrow> thrown + (string \<times> jsval) list" where
  "Object_entries v = (if nullish v then Inl TypeError else Inr (own_entries v))"

definition Object_keys :: "jsval \<Rightarrow> thrown + string list" where
  "Object_keys v = (if nullish v then Inl TypeError else Inr (map fst (own_entries v)))"

section \<open>HTTP requests\<close>

text \<open>
  \<^verbatim>\<open>axios.get(url)\<close>, \<^verbatim>\<open>axios.post(url, body)\<close>, \<^verbatim>\<open>axios.put(url, body)\<close> and
  \<^verbatim>\<open>axios.delete(url)\<close>. A request without a body carries \<open>JUndefined\<close>. The promise
  either resolves with a response, of which the pages read \<^verbatim>\<open>data\<close> only, or rejects
  with an error value.
\<close>

datatype http_verb = GET | POST | PUT | DELETE

record request =
  verb :: http_verb
  url :: string
  body :: jsval

datatype reply = Resolved jsval | Rejected jsval

definition axios_get :: "string \<Rightarrow> request" where
  "axios_get u = \<lparr>verb = GET, url = u, body = JUndefined\<rparr>"

definition axios_post :: "string \<Rightarrow> jsval \<Rightarrow> request" where
  "axios_post u b = \<lparr>verb = POST, url = u, body = b\<rparr>"

definition axios_put :: "string \<Rightarrow> jsval \<Rightarrow> request" where
  "axios_put u b = \<lparr>verb = PUT, url = u, body = b\<rparr>"

definition axios_delete :: "string \<Rightarrow> request" where
  "axios_delete u = \<lparr>verb = DELETE, url = u, body = JUndefined\<rparr>"

section \<open>The Stats page (pages/Stats.js)\<close>

record stats_state =
  s_stats :: jsval
  s_loading :: bool
  s_error :: jsval

text \<open>\<^verbatim>\<open>useState(null)\<close>, \<^verbatim>\<open>useState(true)\<close>, \<^verbatim>\<open>useState(null)\<close>\<close>

definition stats_init :: stats_state where
  "stats_init = \<lparr>s_stats = JNull, s_loading = True, s_error = JNull\<rparr>"

text \<open>
  \<^verbatim>\<open>fetchStats\<close>: one GET; the response data becomes \<^verbatim>\<open>stats\<close>, a rejection sets
  the error text; \<^verbatim>\<open>finally\<close> clears \<^verbatim>\<open>loading\<close>. The result is the requests
  issued and the new state.
\<close>

definition fetchStats :: "(request \<Rightarrow> reply) \<Rightarrow> stats_state \<Rightarrow> request list \<times> stats_state" where
  "fetchStats net st =
     (let r = axios_get ''/api/stats'' in
      case net r of
        Resolved d \<Rightarrow> ([r], st\<lparr>s_stats := d, s_loading := False\<rparr>)
      | Rejected e \<Rightarrow> ([r], st\<lparr>s_error := JStr ''Failed to load statistics'', s_loading := False\<rparr>))"

text \<open>
  \<^verbatim>\<open>chartData\<close>: one \<^verbatim>\<open>{type, count}\<close> per entry of \<^verbatim>\<open>stats.events_by_type\<close> when that
  is truthy, else the empty array.
\<close>

record chart_entry =
  entry_type :: string
  entry_count :: jsval

definition chartData :: "jsval \<Rightarrow> thrown + chart_entry list" where
  "chartData stats =
     (if truthy (opt_dot stats ''events_by_type'') then
        (case dot stats ''events_by_type'' of
           Inl e \<Rightarrow> Inl e
         | Inr ebt \<Rightarrow>
             (case Object_entries ebt of
                Inl e \<Rightarrow> Inl e
              | Inr es \<Rightarrow> Inr (map (\<lambda>(t, c). \<lparr>entry_type = t, entry_count = c\<rparr>) es)))
      else Inr [])"

text \<open>
  The figures of the page: \<^verbatim>\<open>stats?.total_events_processed || 0\<close>, shown under
  "Total Events Processed" and again under "Events Today", and
  \<^verbatim>\<open>Object.keys(stats?.events_by_type || {}).length\<close> under "Event Types".
\<close>

definition total_events_figure :: "jsval \<Rightarrow> jsval" where
  "total_events_figure stats = js_or (opt_dot stats ''total_events_processed'') (JNum 0)"

definition events_today_figure :: "jsval \<Rightarrow> jsval" where
  "events_today_figure stats = js_or (opt_dot stats ''total_events_processed'') (JNum 0)"

definition event_types_figure :: "jsval \<Rightarrow> thrown + nat" where
  "event_types_figure stats =
     (case Object_keys (js_or (opt_dot stats ''events_by_type'') (JObj [])) of
        Inl e \<Rightarrow> Inl e
      | Inr ks \<Rightarrow> Inr (length ks))"

section \<open>The Dashboard's stat cards (pages/Dashboard.js)\<close>

text \<open>\<^verbatim>\<open>statCards\<close>: title, value and colour of the four cards (the icons are left out).\<close>

record card =
  title :: string
  cvalue :: jsval
  color :: string

definition statCards :: "jsval \<Rightarrow> card list" where
  "statCards stats =
     [\<lparr>title = ''Total Assets'', cvalue = js_or (opt_dot stats ''total_assets'') (JNum 0),
        color = ''#1976d2''\<rparr>,
      \<lparr>title = ''Events Processed'',
        cvalue = js_or (opt_dot stats ''total_events_processed'') (JNum 0),
        color = ''#dc004e''\<rparr>,
      \<lparr>title = ''Active Assets'', cvalue = js_or (opt_dot stats ''active_assets'') (JNum 0),
        color = ''#2e7d32''\<rparr>,
      \<lparr>title = ''System Health'', cvalue = JStr ''Healthy'', color = ''#0288d1''\<rparr>]"

text \<open>The card of a given title, as the grid shows it.\<close>

definition card_value :: "string \<Rightarrow> jsval \<Rightarrow> jsval option" where
  "card_value t stats = map_option cvalue (find (\<lambda>c. title c = t) (statCards stats))"

section \<open>Configuration (config.js)\<close>

text \<open>
  \<^verbatim>\<open>API_BASE_URL = '/api'\<close> and the four \<^verbatim>\<open>ENDPOINTS\<close>. (A second copy of the file
  sets the base to \<^verbatim>\<open>http://localhost:8080/api\<close>; the other pages spell
  \<^verbatim>\<open>/api/...\<close> out.)
\<close>

definition API_BASE_URL :: string where
  "API_BASE_URL = ''/api''"

definition ENDPOINTS_ASSETS :: string where
  "ENDPOINTS_ASSETS = API_BASE_URL @ ''/assets''"

definition ENDPOINTS_EVENTS :: string where
  "ENDPOINTS_EVENTS = API_BASE_URL @ ''/events''"

definition ENDPOINTS_STATS :: string where
  "ENDPOINTS_STATS = API_BASE_URL @ ''/stats''"

definition ENDPOINTS_HEALTH :: string where
  "ENDPOINTS_HEALTH = API_BASE_URL @ ''/healthz''"

section \<open>Strings and JSON text\<close>

text \<open>
  \<^verbatim>\<open>String.prototype.trim\<close> and \<^verbatim>\<open>toLowerCase\<close>. Below 256 the white space and line
  terminators are tab, line feed, vertical tab, form feed, carriage return, space and
  the no-break space; the letters \<^verbatim>\<open>A\<close> to \<^verbatim>\<open>Z\<close> and the capital letters from
  U+00C0 to U+00DE (U+00D7, the multiplication sign, is none) are lowered by adding 32.
  \<^verbatim>\<open>toLowerCase\<close> exists on strings only: calling it on another value throws a
  TypeError.
\<close>

definition js_whitespace :: "char \<Rightarrow> bool" where
  "js_whitespace c = (of_char c \<in> {9, 10, 11, 12, 13, 32, 160 :: nat})"

definition trim :: "string \<Rightarrow> string" where
  "trim s = rev (dropWhile js_whitespace (rev (dropWhile js_whitespace s)))"

definition lower_char :: "char \<Rightarrow> char" where
  "lower_char c =
     (let n = (of_char c :: nat) in
      if 65 \<le> n \<and> n \<le> 90 \<or> 192 \<le> n \<and> n \<le> 222 \<and> n \<noteq> 215
      then char_of (n + 32) else c)"

fun toLowerCase :: "jsval \<Rightarrow> thrown + string" where
  "toLowerCase (JStr s) = Inr (map lower_char s)"
| "toLowerCase v = Inl TypeError"

text \<open>
  \<^verbatim>\<open>JSON.stringify(v)\<close> without indentation. \<^verbatim>\<open>undefined\<close> has no JSON text (the
  result is \<^verbatim>\<open>undefined\<close>, here \<open>None\<close>); inside an array it is written
  \<^verbatim>\<open>null\<close>, and a property holding it is left out.
\<close>

definition hex_digit :: "nat \<Rightarrow> char" where
  "hex_digit n = (if n < 10 then char_of (48 + n) else char_of (87 + n))"

definition escape_char :: "char \<Rightarrow> string" where
  "escape_char c =
     (let n = (of_char c :: nat) in
      if n = 34 then [CHR 0x5C, CHR 0x22]
      else if n = 92 then [CHR 0x5C, CHR 0x5C]
      else if n = 8 then [CHR 0x5C, CHR ''b'']
      else if n = 12 then [CHR 0x5C, CHR ''f'']
      else if n = 10 then [CHR 0x5C, CHR ''n'']
      else if n = 13 then [CHR 0x5C, CHR ''r'']
      else if n = 9 then [CHR 0x5C, CHR ''t'']
      else if n < 32 then [CHR 0x5C, CHR ''u'', CHR ''0'', CHR ''0'', hex_digit (n div 16), hex_digit (n mod 16)]
      else [c])"

definition quote :: "string \<Rightarrow> string" where
  "quote s = [CHR 0x22] @ concat (map escape_char s) @ [CHR 0x22]"

fun JSON_stringify :: "jsval \<Rightarrow> string option" where
  "JSON_stringify JUndefined = None"
| "JSON_stringify JNull = Some ''null''"
| "JSON_stringify (JBool b) = Some (if b then ''true'' else ''false'')"
| "JSON_stringify (JNum n) = Some (to_string (JNum n))"
| "JSON_stringify (JDecimal t) = Some t"
| "JSON_stringify (JStr s) = Some (quote s)"
| "JSON_stringify (JArr xs) =
     Some (''['' @ join '','' (map (\<lambda>x. case JSON_stringify x of None \<Rightarrow> ''null'' | Some t \<Rightarrow> t) xs)
           @ '']'')"
| "JSON_stringify (JObj kvs) =
     Some (''{'' @ join '',''
             (concat (map (\<lambda>kv. case JSON_stringify (snd kv) of
                                  None \<Rightarrow> []
                                | Some t \<Rightarrow> [quote (fst kv) @ '':'' @ t]) kvs))
           @ ''}'')"

section \<open>The Assets page (pages/Assets.js)\<close>

text \<open>
  The form of the Add/Edit dialog. The text fields hold what the user typed (a string)
  or, after \<^verbatim>\<open>openEdit\<close>, what the asset carries; the metadata is edited as text.
\<close>

record form =
  name :: jsval
  type :: jsval
  location :: jsval
  status :: jsval
  metadataText :: string

record assets_state =
  a_assets :: jsval
  a_loading :: bool
  a_error :: jsval
  a_addOpen :: bool
  a_editOpen :: bool
  a_viewOpen :: bool
  a_selected :: jsval
  a_form :: form

definition empty_form :: form where
  "empty_form =
     \<lparr>name = JStr [], type = JStr [], location = JStr [], status = JStr ''active'',
      metadataText = [CHR ''{'', CHR 0x0A, CHR '' '', CHR '' '', CHR 0x0A, CHR ''}'']\<rparr>"

definition assets_init :: assets_state where
  "assets_init =
     \<lparr>a_assets = JArr [], a_loading = True, a_error = JNull, a_addOpen = False,
      a_editOpen = False, a_viewOpen = False, a_selected = JNull, a_form = empty_form\<rparr>"

text \<open>
  What a handler does to the outside: the requests it sends, the dialogs it shows and
  the errors it logs, in order. \<open>AlertTypeError\<close> is an alert of the message of a
  TypeError, a text that the engine chooses. \<open>Uncaught\<close> is an exception that leaves
  the handler.
\<close>

datatype effect =
    Request request
  | Confirm string
  | Alert jsval
  | AlertTypeError
  | ConsoleError string
  | Uncaught thrown

fun requests_of :: "effect list \<Rightarrow> request list" where
  "requests_of [] = []"
| "requests_of (Request r # es) = r # requests_of es"
| "requests_of (e # es) = requests_of es"

text \<open>\<^verbatim>\<open>alert(e?.message || fallback)\<close> for a caught exception \<^verbatim>\<open>e\<close>.\<close>

fun alert_message :: "thrown \<Rightarrow> string \<Rightarrow> effect" where
  "alert_message TypeError fallback = AlertTypeError"
| "alert_message (Error m) fallback = Alert (js_or (JStr m) (JStr fallback))"
| "alert_message (Rejection v) fallback = Alert (js_or (opt_dot v ''message'') (JStr fallback))"

text \<open>
  The API behind the page is a state machine: \<open>serve\<close> takes the state of the
  service and a request and gives the reply and the next state. A handler returns its
  effects, the page's new state and the service's new state.
\<close>

definition fetchAssets ::
  "('s \<Rightarrow> request \<Rightarrow> reply \<times> 's) \<Rightarrow> assets_state \<Rightarrow> 's \<Rightarrow> effect list \<times> assets_state \<times> 's" where
  "fetchAssets serve ui s =
     (let r = axios_get ENDPOINTS_ASSETS in
      case serve s r of
        (Resolved d, s') \<Rightarrow> ([Request r], ui\<lparr>a_assets := d, a_loading := False\<rparr>, s')
      | (Rejected e, s') \<Rightarrow>
          ([Request r, ConsoleError ''Error fetching assets:''],
           ui\<lparr>a_error := JStr ''Failed to load assets'', a_loading := False\<rparr>, s'))"

definition resetForm :: "assets_state \<Rightarrow> assets_state" where
  "resetForm ui = ui\<lparr>a_form := empty_form\<rparr>"

definition openAdd :: "assets_state \<Rightarrow> assets_state" where
  "openAdd ui = (resetForm ui)\<lparr>a_addOpen := True\<rparr>"

definition openView :: "jsval \<Rightarrow> assets_state \<Rightarrow> assets_state" where
  "openView asset ui = ui\<lparr>a_selected := asset, a_viewOpen := True\<rparr>"

definition closeAll :: "assets_state \<Rightarrow> assets_state" where
  "closeAll ui =
     ui\<lparr>a_addOpen := False, a_editOpen := False, a_viewOpen := False, a_selected := JNull\<rparr>"

text \<open>
  \<^verbatim>\<open>parseMetadata\<close>: blank text stands for \<^verbatim>\<open>{}\<close>; any other text goes through
  \<^verbatim>\<open>JSON.parse\<close>, and whatever that throws is replaced by
  \<^verbatim>\<open>Error('Metadata must be valid JSON')\<close>. \<^verbatim>\<open>JSON.parse\<close> belongs to the
  JavaScript runtime and is the parameter \<open>parse\<close>: \<open>None\<close> when it throws.
\<close>

definition parseMetadata :: "(string \<Rightarrow> jsval option) \<Rightarrow> form \<Rightarrow> thrown + jsval" where
  "parseMetadata parse f =
     (if truthy (JStr (trim (metadataText f))) then
        (case parse (metadataText f) of
           Some v \<Rightarrow> Inr v
         | None \<Rightarrow> Inl (Error ''Metadata must be valid JSON''))
      else Inr (JObj []))"

text \<open>
  \<^verbatim>\<open>handleAddSubmit\<close>: the payload
  \<^verbatim>\<open>{ name: form.name, type: form.type, location: form.location, metadata: parseMetadata() }\<close>
  is posted; on success the dialogs close and the list is fetched again; whatever is
  thrown on the way is alerted.
\<close>

definition add_payload :: "form \<Rightarrow> jsval \<Rightarrow> jsval" where
  "add_payload f md =
     JObj [(''name'', name f), (''type'', type f), (''location'', location f), (''metadata'', md)]"

definition handleAddSubmit ::
  "(string \<Rightarrow> jsval option) \<Rightarrow> ('s \<Rightarrow> request \<Rightarrow> reply \<times> 's) \<Rightarrow> assets_state \<Rightarrow> 's
     \<Rightarrow> effect list \<times> assets_state \<times> 's" where
  "handleAddSubmit parse serve ui s =
     (case parseMetadata parse (a_form ui) of
        Inl e \<Rightarrow> ([alert_message e ''Failed to add asset''], ui, s)
      | Inr md \<Rightarrow>
          (let r = axios_post ENDPOINTS_ASSETS (add_payload (a_form ui) md) in
           case serve s r of
             (Rejected e, s1) \<Rightarrow>
               ([Request r, alert_message (Rejection e) ''Failed to add asset''], ui, s1)
           | (Resolved d, s1) \<Rightarrow>
               (case fetchAssets serve ((closeAll ui)\<lparr>a_loading := True\<rparr>) s1 of
                  (es, ui2, s2) \<Rightarrow> (Request r # es, ui2, s2))))"

text \<open>
  \<^verbatim>\<open>handleEditSubmit\<close> collects in \<^verbatim>\<open>update\<close> the fields that changed, in the order
  name, type, location, status, metadata, and sends them with PUT. The steps run in
  the source's order, so the first one that throws decides what is caught.
\<close>

definition changed_status :: "form \<Rightarrow> jsval \<Rightarrow> thrown + bool" where
  "changed_status f selected =
     (case toLowerCase (js_or (status f) (JStr [])) of
        Inl e \<Rightarrow> Inl e
      | Inr a \<Rightarrow>
          (case toLowerCase (js_or (own_prop selected ''status'') (JStr [])) of
             Inl e \<Rightarrow> Inl e
           | Inr b \<Rightarrow> Inr (a \<noteq> b)))"

definition changed_metadata :: "jsval \<Rightarrow> jsval \<Rightarrow> bool" where
  "changed_metadata newMeta selected =
     (JSON_stringify newMeta \<noteq> JSON_stringify (js_or (own_prop selected ''metadata'') (JObj [])))"

definition build_update :: "(string \<Rightarrow> jsval option) \<Rightarrow> form \<Rightarrow> jsval \<Rightarrow> thrown + jsval" where
  "build_update parse f selected =
     (if nullish selected then Inl TypeError
      else
        (let u1 = (if name f \<noteq> own_prop selected ''name'' then [(''name'', name f)] else []);
             u2 = (if type f \<noteq> own_prop selected ''type'' then [(''type'', type f)] else []);
             u3 = (if location f \<noteq> own_prop selected ''location''
                   then [(''location'', location f)] else [])
         in case changed_status f selected of
              Inl e \<Rightarrow> Inl e
            | Inr cs \<Rightarrow>
                (let u4 = (if cs then [(''status'', status f)] else []) in
                 case parseMetadata parse f of
                   Inl e \<Rightarrow> Inl e
                 | Inr newMeta \<Rightarrow>
                     (let u5 = (if changed_metadata newMeta selected
                                then [(''metadata'', newMeta)] else [])
                      in Inr (JObj (u1 @ u2 @ u3 @ u4 @ u5))))))"

text \<open>\<^verbatim>\<open>`${ENDPOINTS.ASSETS}/${asset.id}`\<close>\<close>

definition asset_url :: "jsval \<Rightarrow> string" where
  "asset_url asset = ENDPOINTS_ASSETS @ ''/'' @ to_string (own_prop asset ''id'')"

definition handleEditSubmit ::
  "(string \<Rightarrow> jsval option) \<Rightarrow> ('s \<Rightarrow> request \<Rightarrow> reply \<times> 's) \<Rightarrow> assets_state \<Rightarrow> 's
     \<Rightarrow> effect list \<times> assets_state \<times> 's" where
  "handleEditSubmit parse serve ui s =
     (case build_update parse (a_form ui) (a_selected ui) of
        Inl e \<Rightarrow> ([alert_message e ''Failed to update asset''], ui, s)
      | Inr update \<Rightarrow>
          (let r = axios_put (asset_url (a_selected ui)) update in
           case serve s r of
             (Rejected e, s1) \<Rightarrow>
               ([Request r, alert_message (Rejection e) ''Failed to update asset''], ui, s1)
           | (Resolved d, s1) \<Rightarrow>
               (case fetchAssets serve ((closeAll ui)\<lparr>a_loading := True\<rparr>) s1 of
                  (es, ui2, s2) \<Rightarrow> (Request r # es, ui2, s2))))"

text \<open>\<^verbatim>\<open>`Delete asset ${asset.name}?`\<close>\<close>

definition delete_question :: "jsval \<Rightarrow> string" where
  "delete_question asset = ''Delete asset '' @ to_string (own_prop asset ''name'') @ ''?''"

text \<open>
  \<^verbatim>\<open>handleDelete\<close>: \<^verbatim>\<open>window.confirm\<close> is the user's answer to the prompt, the
  parameter \<open>confirm\<close>. Reading \<^verbatim>\<open>asset.name\<close> for the prompt is outside the
  \<^verbatim>\<open>try\<close>.
\<close>

definition handleDelete ::
  "(string \<Rightarrow> bool) \<Rightarrow> ('s \<Rightarrow> request \<Rightarrow> reply \<times> 's) \<Rightarrow> jsval \<Rightarrow> assets_state \<Rightarrow> 's
     \<Rightarrow> effect list \<times> assets_state \<times> 's" where
  "handleDelete confirm serve asset ui s =
     (if nullish asset then ([Uncaught TypeError], ui, s)
      else
        (let question = delete_question asset in
         if \<not> confirm question then ([Confirm question], ui, s)
         else
           (let r = axios_delete (asset_url asset) in
            case serve s r of
              (Rejected e, s1) \<Rightarrow>
                ([Confirm question, Request r, Alert (JStr ''Failed to delete asset'')], ui, s1)
            | (Resolved d, s1) \<Rightarrow>
                (case fetchAssets serve (ui\<lparr>a_loading := True\<rparr>) s1 of
                   (es, ui2, s2) \<Rightarrow> (Confirm question # Request r # es, ui2, s2)))))"

section \<open>Rendered text\<close>

text \<open>
  A rendered line is made of literal text and of dates:
  \<open>LocaleDate v\<close> stands for \<^verbatim>\<open>new Date(v).toLocaleString()\<close>, whose text depends on
  the browser's locale. \<open>middle_dot\<close> is the character U+00B7.
\<close>

datatype piece = Text string | LocaleDate jsval

definition middle_dot :: string where
  "middle_dot = [CHR 0xB7]"

text \<open>
  A page is rendered in two steps. The component function runs first and builds the
  elements; what it throws (a TypeError of a property read, say) ends the render. React
  then renders the children \<^verbatim>\<open>{v}\<close> of the elements: a string or a number becomes its
  text, \<^verbatim>\<open>null\<close>, \<^verbatim>\<open>undefined\<close> and the booleans become nothing, an array becomes
  its items one after the other, and a plain object is refused ("Objects are not valid
  as a React child"), which loses the whole page, since no error boundary is set up.
\<close>

datatype crash = Thrown thrown | InvalidChild

fun gather :: "(crash + string) list \<Rightarrow> crash + string" where
  "gather [] = Inr []"
| "gather (Inl c # rs) = Inl c"
| "gather (Inr t # rs) = (case gather rs of Inl c \<Rightarrow> Inl c | Inr ts \<Rightarrow> Inr (t @ ts))"

fun react_child :: "jsval \<Rightarrow> crash + string" where
  "react_child JUndefined = Inr []"
| "react_child JNull = Inr []"
| "react_child (JBool b) = Inr []"
| "react_child (JNum n) = Inr (to_string (JNum n))"
| "react_child (JDecimal t) = Inr t"
| "react_child (JStr s) = Inr s"
| "react_child (JArr xs) = gather (map react_child xs)"
| "react_child (JObj kvs) = Inl InvalidChild"

text \<open>\<^verbatim>\<open>v.length\<close> of a value that is not \<^verbatim>\<open>null\<close> or \<^verbatim>\<open>undefined\<close>.\<close>

fun js_length :: "jsval \<Rightarrow> jsval" where
  "js_length (JArr xs) = JNum (int (length xs))"
| "js_length (JStr s) = JNum (int (length s))"
| "js_length v = own_prop v ''length''"

text \<open>The results of mapping a rendering over an array: the first failure wins.\<close>

fun collect :: "('e + 'a) list \<Rightarrow> 'e + 'a list" where
  "collect [] = Inr []"
| "collect (Inl e # rs) = Inl e"
| "collect (Inr x # rs) = (case collect rs of Inl e \<Rightarrow> Inl e | Inr xs \<Rightarrow> Inr (x # xs))"

section \<open>The Dashboard (pages/Dashboard.js)\<close>

record dashboard_state =
  d_stats :: jsval
  d_loading :: bool
  d_error :: jsval
  d_events :: jsval
  d_sysMetrics :: jsval

definition dashboard_init :: dashboard_state where
  "dashboard_init =
     \<lparr>d_stats = JNull, d_loading = True, d_error = JNull, d_events = JArr [],
      d_sysMetrics = JNull\<rparr>"

text \<open>\<^verbatim>\<open>v.slice(0, 5)\<close>: arrays and strings have it, nothing else in JSON does.\<close>

fun slice5 :: "jsval \<Rightarrow> thrown + jsval" where
  "slice5 (JArr xs) = Inr (JArr (take 5 xs))"
| "slice5 (JStr s) = Inr (JStr (take 5 s))"
| "slice5 v = Inl TypeError"

text \<open>
  \<^verbatim>\<open>fetchAll\<close>: three GETs under \<^verbatim>\<open>Promise.all\<close>. Only the third has a
  \<^verbatim>\<open>catch\<close> of its own, which puts \<^verbatim>\<open>{data: {available: false}}\<close> in the place of
  the response. A rejection of one of the other two, or an exception while the state
  is set, goes to the outer \<^verbatim>\<open>catch\<close>. \<open>net\<close> is the reply to each request.
\<close>

definition metrics_data :: "reply \<Rightarrow> jsval" where
  "metrics_data r =
     (case r of Resolved d \<Rightarrow> d | Rejected e \<Rightarrow> JObj [(''available'', JBool False)])"

definition fetchAll ::
  "(request \<Rightarrow> reply) \<Rightarrow> dashboard_state \<Rightarrow> request list \<times> dashboard_state" where
  "fetchAll net st =
     (let rs = axios_get ''/api/stats'';
          re = axios_get ''/api/events'';
          rm = axios_get ''/api/system/metrics'';
          m = metrics_data (net rm);
          failed = (\<lambda>st'. st'\<lparr>d_error := JStr ''Failed to load dashboard data'',
                               d_loading := False\<rparr>)
      in ([rs, re, rm],
          (case net rs of
             Rejected x \<Rightarrow> failed st
           | Resolved s \<Rightarrow>
               (case net re of
                  Rejected x \<Rightarrow> failed st
                | Resolved e \<Rightarrow>
                    (case slice5 (js_or e (JArr [])) of
                       Inl x \<Rightarrow> failed (st\<lparr>d_stats := s\<rparr>)
                     | Inr ev \<Rightarrow>
                         st\<lparr>d_stats := s, d_events := ev, d_sysMetrics := js_or m JNull,
                            d_loading := False\<rparr>)))))"



text \<open>
  One line of Recent Activity: the title and the secondary line are template literals,
  the label of the chip is the child \<^verbatim>\<open>ev.event_type\<close>.
\<close>

record recent_item =
  r_primary :: string
  r_chip :: jsval
  r_secondary :: "piece list"

definition recent_item :: "jsval \<Rightarrow> thrown + recent_item" where
  "recent_item ev =
     (if nullish ev then Inl TypeError
      else Inr
        \<lparr>r_primary =
           (if own_prop ev ''event_type'' = JStr ''system_metrics'' then ''System metrics''
            else ''Asset: '' @ to_string (own_prop ev ''asset_id'')),
         r_chip = own_prop ev ''event_type'',
         r_secondary =
           [Text (''Node: '' @ to_string (js_or (own_prop ev ''node_id'') (JStr ''-'')) @ '' ''
                  @ middle_dot @ '' ''),
            LocaleDate (own_prop ev ''timestamp'')]\<rparr>)"






record recent_line =
  l_primary :: string
  l_chip :: string
  l_secondary :: "piece list"

definition recent_view :: "recent_item \<Rightarrow> crash + recent_line" where
  "recent_view item =
     (case react_child (r_chip item) of
        Inl x \<Rightarrow> Inl x
      | Inr t \<Rightarrow> Inr \<lparr>l_primary = r_primary item, l_chip = t, l_secondary = r_secondary item\<rparr>)"

text \<open>The line that the Dashboard shows for one event record.\<close>

definition recent_line :: "jsval \<Rightarrow> crash + recent_line" where
  "recent_line ev = (case recent_item ev of Inl e \<Rightarrow> Inl (Thrown e) | Inr item \<Rightarrow> recent_view item)"



section \<open>The Events page (pages/Events.js)\<close>

record events_state =
  e_events :: jsval
  e_loading :: bool
  e_error :: jsval

definition events_init :: events_state where
  "events_init = \<lparr>e_events = JArr [], e_loading = True, e_error = JNull\<rparr>"

definition fetchEvents :: "(request \<Rightarrow> reply) \<Rightarrow> events_state \<Rightarrow> request list \<times> events_state" where
  "fetchEvents net st =
     (let r = axios_get ''/api/events'' in
      case net r of
        Resolved d \<Rightarrow> ([r], st\<lparr>e_events := d, e_loading := False\<rparr>)
      | Rejected e \<Rightarrow> ([r], st\<lparr>e_error := JStr ''Failed to load events'', e_loading := False\<rparr>))"

text \<open>\<^verbatim>\<open>getEventTypeColor\<close>: a switch on \<^verbatim>\<open>eventType?.toLowerCase()\<close>.\<close>

definition getEventTypeColor :: "jsval \<Rightarrow> thrown + string" where
  "getEventTypeColor eventType =
     (if nullish eventType then Inr ''default''
      else (case toLowerCase eventType of
              Inl e \<Rightarrow> Inl e
            | Inr t \<Rightarrow> Inr
                (if t = ''create'' then ''success''
                 else if t = ''update'' then ''info''
                 else if t = ''delete'' then ''error''
                 else if t = ''maintenance'' then ''warning''
                 else if t = ''system_metrics'' then ''primary''
                 else ''default'')))"

text \<open>
  \<^verbatim>\<open>renderSystemMetrics\<close>: the host line with the children
  \<^verbatim>\<open>{event.node_id || '-'}\<close> and the date, then one box for each field of
  \<^verbatim>\<open>event?.data || {}\<close>, whose child is the field or \<^verbatim>\<open>'-'\<close>. The box of the
  kernel has a second child, \<^verbatim>\<open>{d.lsb_release && <pre>{d.lsb_release}</pre>}\<close>: a
  second \<^verbatim>\<open>pre\<close> when the field is truthy, else the falsy field itself.
\<close>

datatype child = Pre jsval | Loose jsval

record metrics_element =
  m_node :: jsval
  m_time :: piece
  m_boxes :: "(string \<times> child list) list"

definition renderSystemMetrics :: "jsval \<Rightarrow> thrown + metrics_element" where
  "renderSystemMetrics event =
     (let d = js_or (opt_dot event ''data'') (JObj []) in
      if nullish event then Inl TypeError
      else Inr
        \<lparr>m_node = js_or (own_prop event ''node_id'') (JStr ''-''),
         m_time = LocaleDate (own_prop event ''timestamp''),
         m_boxes =
           [(''CPU / Memory'', [Pre (js_or (own_prop d ''cpu_mem'') (JStr ''-''))]),
            (''Disk'', [Pre (js_or (own_prop d ''disk'') (JStr ''-''))]),
            (''OS / Kernel'',
               [Pre (js_or (own_prop d ''os_kernel'') (JStr ''-'')),
                (if truthy (own_prop d ''lsb_release'') then Pre (own_prop d ''lsb_release'')
                 else Loose (own_prop d ''lsb_release''))]),
            (''Users'', [Pre (js_or (own_prop d ''users'') (JStr ''-''))]),
            (''Top Processes'', [Pre (js_or (own_prop d ''processes_top'') (JStr ''-''))]),
            (''Network'', [Pre (js_or (own_prop d ''network'') (JStr ''-''))]),
            (''Uptime'', [Pre (js_or (own_prop d ''uptime'') (JStr ''-''))]),
            (''Load Average'', [Pre (js_or (own_prop d ''loadavg'') (JStr ''-''))])]\<rparr>)"

text \<open>
  The lines under an event of another type: the node (the child \<^verbatim>\<open>{event.node_id}\<close>),
  the time, and
  \<^verbatim>\<open>{event.data && Object.keys(event.data).length > 0 && (...)}\<close>: the data as JSON text
  when there is some, else the falsy value that ended the \<^verbatim>\<open>&&\<close> chain.
\<close>

datatype data_element = DataLine string | NoData jsval

record asset_event_element =
  g_node :: jsval
  g_time :: piece
  g_data :: data_element

definition asset_event_element :: "jsval \<Rightarrow> asset_event_element" where
  "asset_event_element event =
     \<lparr>g_node = own_prop event ''node_id'',
      g_time = LocaleDate (own_prop event ''timestamp''),
      g_data =
        (if \<not> truthy (own_prop event ''data'') then NoData (own_prop event ''data'')
         else if own_entries (own_prop event ''data'') = [] then NoData (JBool False)
         else DataLine (case JSON_stringify (own_prop event ''data'') of
                          None \<Rightarrow> [] | Some t \<Rightarrow> t))\<rparr>"

datatype secondary = SystemMetrics metrics_element | AssetEvent asset_event_element

record event_item =
  i_primary :: string
  i_chip :: jsval
  i_chip_color :: string
  i_secondary :: secondary

definition event_item :: "jsval \<Rightarrow> thrown + event_item" where
  "event_item event =
     (if nullish event then Inl TypeError
      else
        (case getEventTypeColor (own_prop event ''event_type'') of
           Inl e \<Rightarrow> Inl e
         | Inr c \<Rightarrow>
             (case (if own_prop event ''event_type'' = JStr ''system_metrics''
                    then map_sum id SystemMetrics (renderSystemMetrics event)
                    else Inr (AssetEvent (asset_event_element event))) of
                Inl e \<Rightarrow> Inl e
              | Inr sec \<Rightarrow> Inr
                  \<lparr>i_primary =
                     (if own_prop event ''event_type'' = JStr ''system_metrics''
                      then ''System metrics''
                      else ''Asset: '' @ to_string (own_prop event ''asset_id'')),
                   i_chip = own_prop event ''event_type'',
                   i_chip_color = c,
                   i_secondary = sec\<rparr>)))"

text \<open>
  What React makes of the elements of an event. A box shows the texts of its
  \<^verbatim>\<open>pre\<close> children; a loose child is a bare text, which is nothing when it is empty.
\<close>

definition child_texts :: "child \<Rightarrow> crash + string list" where
  "child_texts c =
     (case c of
        Pre v \<Rightarrow> map_sum id (\<lambda>t. [t]) (react_child v)
      | Loose v \<Rightarrow> map_sum id (\<lambda>t. if t = [] then [] else [t]) (react_child v))"

definition box_view :: "string \<times> child list \<Rightarrow> crash + string \<times> string list" where
  "box_view b =
     map_sum id (\<lambda>ts. (fst b, concat ts)) (collect (map child_texts (snd b)))"

record metrics_view =
  mv_host :: "piece list"
  mv_boxes :: "(string \<times> string list) list"

definition metrics_view :: "metrics_element \<Rightarrow> crash + metrics_view" where
  "metrics_view m =
     (case react_child (m_node m) of
        Inl x \<Rightarrow> Inl x
      | Inr n \<Rightarrow>
          (case collect (map box_view (m_boxes m)) of
             Inl x \<Rightarrow> Inl x
           | Inr bs \<Rightarrow> Inr
               \<lparr>mv_host = [Text (''Node: '' @ n @ '' '' @ middle_dot @ '' Time: ''), m_time m],
                mv_boxes = bs\<rparr>))"

record asset_event_view =
  gv_node :: string
  gv_time :: piece
  gv_data :: string

definition asset_event_view :: "asset_event_element \<Rightarrow> crash + asset_event_view" where
  "asset_event_view g =
     (case react_child (g_node g) of
        Inl x \<Rightarrow> Inl x
      | Inr n \<Rightarrow>
          (case (case g_data g of
                   DataLine t \<Rightarrow> Inr (''Data: '' @ t)
                 | NoData v \<Rightarrow> react_child v) of
             Inl x \<Rightarrow> Inl x
           | Inr d \<Rightarrow> Inr \<lparr>gv_node = ''Node: '' @ n, gv_time = g_time g, gv_data = d\<rparr>))"

datatype secondary_view = SystemMetricsView metrics_view | AssetEventView asset_event_view

record event_line =
  el_primary :: string
  el_chip :: string
  el_chip_color :: string
  el_secondary :: secondary_view

definition event_view :: "event_item \<Rightarrow> crash + event_line" where
  "event_view item =
     (case react_child (i_chip item) of
        Inl x \<Rightarrow> Inl x
      | Inr t \<Rightarrow>
          (case (case i_secondary item of
                   SystemMetrics m \<Rightarrow> map_sum id SystemMetricsView (metrics_view m)
                 | AssetEvent g \<Rightarrow> map_sum id AssetEventView (asset_event_view g)) of
             Inl x \<Rightarrow> Inl x
           | Inr sec \<Rightarrow> Inr
               \<lparr>el_primary = i_primary item, el_chip = t, el_chip_color = i_chip_color item,
                el_secondary = sec\<rparr>))"

text \<open>The line that the Events page shows for one event record.\<close>

definition event_line :: "jsval \<Rightarrow> crash + event_line" where
  "event_line event =
     (case event_item event of Inl e \<Rightarrow> Inl (Thrown e) | Inr item \<Rightarrow> event_view item)"

datatype events_view =
    EventsLoading
  | EventsError string
  | EventsPage "event_line list"

definition Events :: "events_state \<Rightarrow> crash + events_view" where
  "Events st =
     (if e_loading st then Inr EventsLoading
      else if truthy (e_error st) then map_sum id EventsError (react_child (e_error st))
      else if nullish (e_events st) then Inl (Thrown TypeError)
      else if js_length (e_events st) = JNum 0 then Inr (EventsPage [])
      else (case e_events st of
              JArr xs \<Rightarrow>
                (case collect (map event_item xs) of
                   Inl e \<Rightarrow> Inl (Thrown e)
                 | Inr items \<Rightarrow> map_sum id EventsPage (collect (map event_view items)))
            | _ \<Rightarrow> Inl (Thrown TypeError)))"

section \<open>The Processor / Store (spec 3, 4.4)\<close>

text \<open>
  Modelled from the spec: the Processor/Store of \<^verbatim>\<open>app/processor-service\<close>, whose code
  is not among the sources. The definitions of this section follow sections 3 and 4.4
  of the specification: the Asset, the direct CRUD surface and \<^verbatim>\<open>applyEvent\<close> with
  its idempotency ledger.
\<close>

text \<open>Modelled from the spec: the enumerated \<^verbatim>\<open>status\<close> of an Asset.\<close>

datatype asset_status = Active | Inactive | Maintenance

text \<open>Modelled from the spec: the errors of the Processor's operations (4.4, 7).\<close>

datatype store_error = NotFound | ValidationError | Conflict | StoreUnavailable

text \<open>
  Modelled from the spec: the Asset of section 3. The name, type and location are kept
  as the JSON values that the API carries; \<^verbatim>\<open>last_updated\<close> is the time of the last
  commit.
\<close>

record asset =
  as_id :: nat
  as_name :: jsval
  as_type :: jsval
  as_location :: jsval
  as_status :: asset_status
  as_metadata :: jsval
  as_last_updated :: nat

text \<open>
  Modelled from the spec: the Asset table, with the primary key that the store assigns
  next.
\<close>

record store =
  rows :: "nat \<rightharpoonup> asset"
  next_id :: nat

text \<open>
  Modelled from the spec: \<^verbatim>\<open>metadata\<close> is an open key/value map, so a payload that is
  not an object is malformed; \<^verbatim>\<open>status\<close> is one of the three enumerated names.
\<close>

fun valid_metadata :: "jsval \<Rightarrow> bool" where
  "valid_metadata (JObj kvs) = True"
| "valid_metadata v = False"

text \<open>Modelled from the spec: the three names of the enumerated \<^verbatim>\<open>status\<close>.\<close>

definition status_of :: "jsval \<Rightarrow> asset_status option" where
  "status_of v =
     (if v = JStr ''active'' then Some Active
      else if v = JStr ''inactive'' then Some Inactive
      else if v = JStr ''maintenance'' then Some Maintenance
      else None)"

text \<open>
  Modelled from the spec: \<^verbatim>\<open>createAsset(fields)\<close> with the fields
  \<^verbatim>\<open>{name, type, location, metadata}\<close> of \<^verbatim>\<open>POST /assets\<close>. The status defaults to
  \<^verbatim>\<open>active\<close>, \<^verbatim>\<open>last_updated\<close> is set to the time of the commit, and a malformed
  metadata is a ValidationError that leaves the store as it is.
\<close>

definition createAsset :: "jsval \<Rightarrow> nat \<Rightarrow> store \<Rightarrow> store_error + (nat \<times> store)" where
  "createAsset payload now st =
     (if valid_metadata (own_prop payload ''metadata'') then
        Inr (next_id st,
             st\<lparr>rows := (rows st)(next_id st \<mapsto>
                    \<lparr>as_id = next_id st,
                     as_name = own_prop payload ''name'',
                     as_type = own_prop payload ''type'',
                     as_location = own_prop payload ''location'',
                     as_status = Active,
                     as_metadata = own_prop payload ''metadata'',
                     as_last_updated = now\<rparr>),
                next_id := Suc (next_id st)\<rparr>)
      else Inl ValidationError)"

text \<open>Modelled from the spec: \<^verbatim>\<open>getAsset(id)\<close>, NotFound for an unknown id.\<close>

definition getAsset :: "nat \<Rightarrow> store \<Rightarrow> store_error + asset" where
  "getAsset i st = (case rows st i of None \<Rightarrow> Inl NotFound | Some a \<Rightarrow> Inr a)"

text \<open>
  Modelled from the spec: \<^verbatim>\<open>updateAsset(id, partialFields)\<close> with any subset of
  \<^verbatim>\<open>name/type/location/status/metadata\<close>; a field that is absent keeps its value.
\<close>

definition updateAsset :: "nat \<Rightarrow> jsval \<Rightarrow> nat \<Rightarrow> store \<Rightarrow> store_error + store" where
  "updateAsset i payload now st =
     (case rows st i of
        None \<Rightarrow> Inl NotFound
      | Some a \<Rightarrow>
          if own_prop payload ''status'' \<noteq> JUndefined \<and> status_of (own_prop payload ''status'') = None
          then Inl ValidationError
          else if own_prop payload ''metadata'' \<noteq> JUndefined
                  \<and> \<not> valid_metadata (own_prop payload ''metadata'')
          then Inl ValidationError
          else Inr (st\<lparr>rows := (rows st)(i \<mapsto>
                 a\<lparr>as_name := (if own_prop payload ''name'' = JUndefined then as_name a
                                 else own_prop payload ''name''),
                   as_type := (if own_prop payload ''type'' = JUndefined then as_type a
                                 else own_prop payload ''type''),
                   as_location := (if own_prop payload ''location'' = JUndefined then as_location a
                                     else own_prop payload ''location''),
                   as_status := (case status_of (own_prop payload ''status'') of
                                   None \<Rightarrow> as_status a | Some x \<Rightarrow> x),
                   as_metadata := (if own_prop payload ''metadata'' = JUndefined then as_metadata a
                                     else own_prop payload ''metadata''),
                   as_last_updated := now\<rparr>)\<rparr>))"

text \<open>Modelled from the spec: \<^verbatim>\<open>deleteAsset(id)\<close> removes the row.\<close>

definition deleteAsset :: "nat \<Rightarrow> store \<Rightarrow> store_error + store" where
  "deleteAsset i st =
     (case rows st i of
        None \<Rightarrow> Inl NotFound
      | Some a \<Rightarrow> Inr (st\<lparr>rows := (rows st)(i := None)\<rparr>))"

text \<open>Modelled from the spec: the enumerated \<^verbatim>\<open>event_type\<close> of section 3.\<close>

datatype event_type = EvCreate | EvUpdate | EvDelete | EvMaintenance | EvSystemMetrics

text \<open>Modelled from the spec: the Event Envelope of section 3.\<close>

record envelope =
  event_id :: string
  event_type :: event_type
  node_id :: string
  asset_id :: "nat option"
  timestamp :: nat
  data :: jsval

text \<open>
  Modelled from the spec: what the Processor persists, namely the Asset table, the log
  of applied events (newest first) and the idempotency ledger keyed by
  \<^verbatim>\<open>event_id\<close>.
\<close>

record processor =
  p_store :: store
  p_log :: "envelope list"
  p_ledger :: "string list"

text \<open>
  Modelled from the spec: what an event does to the Asset table. \<^verbatim>\<open>create\<close> inserts a
  new Asset under the event's asset id, or does nothing when one is there already;
  \<^verbatim>\<open>update\<close> and \<^verbatim>\<open>delete\<close> mutate and remove the targeted Asset;
  \<^verbatim>\<open>system_metrics\<close> is a log row only. The spec gives no rule for
  \<^verbatim>\<open>maintenance\<close>, which is a log row only here.
\<close>

definition event_effect :: "envelope \<Rightarrow> nat \<Rightarrow> store \<Rightarrow> store_error + store" where
  "event_effect e now st =
     (case event_type e of
        EvCreate \<Rightarrow>
          (case asset_id e of
             None \<Rightarrow> Inl ValidationError
           | Some k \<Rightarrow>
               if rows st k \<noteq> None then Inr st
               else if \<not> valid_metadata (own_prop (data e) ''metadata'') then Inl ValidationError
               else Inr (st\<lparr>rows := (rows st)(k \<mapsto>
                           \<lparr>as_id = k,
                            as_name = own_prop (data e) ''name'',
                            as_type = own_prop (data e) ''type'',
                            as_location = own_prop (data e) ''location'',
                            as_status = Active,
                            as_metadata = own_prop (data e) ''metadata'',
                            as_last_updated = now\<rparr>),
                         next_id := max (next_id st) (Suc k)\<rparr>))
      | EvUpdate \<Rightarrow>
          (case asset_id e of
             None \<Rightarrow> Inl ValidationError
           | Some k \<Rightarrow> updateAsset k (data e) now st)
      | EvDelete \<Rightarrow>
          (case asset_id e of
             None \<Rightarrow> Inl ValidationError
           | Some k \<Rightarrow> deleteAsset k st)
      | EvMaintenance \<Rightarrow> Inr st
      | EvSystemMetrics \<Rightarrow> Inr st)"

text \<open>
  Modelled from the spec: \<^verbatim>\<open>applyEvent(envelope)\<close>. An \<^verbatim>\<open>event_id\<close> that the ledger
  holds is not applied again. Otherwise the effect, the log row and the ledger entry
  are one transaction: an error leaves everything as it was.
\<close>

definition applyEvent :: "envelope \<Rightarrow> nat \<Rightarrow> processor \<Rightarrow> store_error + processor" where
  "applyEvent e now p =
     (if event_id e \<in> set (p_ledger p) then Inr p
      else (case event_effect e now (p_store p) of
              Inl err \<Rightarrow> Inl err
            | Inr st \<Rightarrow>
                Inr (p\<lparr>p_store := st, p_log := e # p_log p,
                       p_ledger := event_id e # p_ledger p\<rparr>)))"

text \<open>
  Modelled from the spec: the persisted state after an attempt, which is the old one
  when the attempt failed (no partial write is observable).
\<close>

definition persisted :: "processor \<Rightarrow> store_error + processor \<Rightarrow> processor" where
  "persisted p r = (case r of Inl err \<Rightarrow> p | Inr p' \<Rightarrow> p')"

text \<open>
  Modelled from the spec: the persisted state after a sequence of deliveries, each an
  envelope with the time of its commit; a delivery that fails leaves the state as it is.
\<close>

fun applyAll :: "(envelope \<times> nat) list \<Rightarrow> processor \<Rightarrow> processor" where
  "applyAll [] p = p"
| "applyAll ((e, t) # ds) p = applyAll ds (persisted p (applyEvent e t p))"

section \<open>Notions of the statements\<close>

text \<open>
  A counter of a \<^verbatim>\<open>/stats\<close> response that is absent (reading it gives
  \<^verbatim>\<open>undefined\<close>), \<^verbatim>\<open>null\<close> or zero.
\<close>

definition absent_null_or_zero :: "jsval \<Rightarrow> bool" where
  "absent_null_or_zero v = (v = JUndefined \<or> v = JNull \<or> v = JNum 0)"

text \<open>
  The mapping that a \<^verbatim>\<open>/stats\<close> response carries under \<^verbatim>\<open>events_by_type\<close>: the
  entries of the object (an object has each key once), none when the field is absent.
\<close>

definition events_by_type_of :: "jsval \<Rightarrow> (string \<times> jsval) list option" where
  "events_by_type_of stats =
     (case opt_dot stats ''events_by_type'' of
        JObj kvs \<Rightarrow> if distinct (map fst kvs) then Some kvs else None
      | JUndefined \<Rightarrow> Some []
      | JNull \<Rightarrow> Some []
      | _ \<Rightarrow> None)"

text \<open>A text is blank when trimming leaves nothing of it.\<close>

definition blank :: "string \<Rightarrow> bool" where
  "blank t = (trim t = [])"

text \<open>
  A status that \<^verbatim>\<open>(status || '').toLowerCase()\<close> accepts: a string, or a falsy value,
  which \<^verbatim>\<open>''\<close> replaces.
\<close>

fun string_or_falsy :: "jsval \<Rightarrow> bool" where
  "string_or_falsy (JStr s) = True"
| "string_or_falsy v = (\<not> truthy v)"

text \<open>
  The fields that \<^verbatim>\<open>PUT /assets/{id}\<close> may carry, in the order in which
  \<^verbatim>\<open>handleEditSubmit\<close> looks at them, and the value that the form gives for each.
\<close>

definition update_fields :: "string list" where
  "update_fields = [''name'', ''type'', ''location'', ''status'', ''metadata'']"

definition new_value :: "string \<Rightarrow> form \<Rightarrow> jsval \<Rightarrow> jsval" where
  "new_value k f newMeta =
     (if k = ''name'' then name f
      else if k = ''type'' then type f
      else if k = ''location'' then location f
      else if k = ''status'' then status f
      else newMeta)"

text \<open>
  Whether the form's value of a field differs from the selected asset's, as
  \<^verbatim>\<open>handleEditSubmit\<close> compares them: the status in lower case with a missing one read
  as \<^verbatim>\<open>''\<close>, the metadata by its JSON text with a missing one read as \<^verbatim>\<open>{}\<close>, the
  other fields with \<^verbatim>\<open>!==\<close>.
\<close>

definition field_differs :: "string \<Rightarrow> form \<Rightarrow> jsval \<Rightarrow> jsval \<Rightarrow> bool" where
  "field_differs k f newMeta selected =
     (if k = ''status'' then
        toLowerCase (js_or (status f) (JStr []))
          \<noteq> toLowerCase (js_or (own_prop selected ''status'') (JStr []))
      else if k = ''metadata'' then
        JSON_stringify newMeta \<noteq> JSON_stringify (js_or (own_prop selected ''metadata'') (JObj []))
      else new_value k f newMeta \<noteq> own_prop selected k)"

text \<open>
  The same comparison without the two defaults, following the words "status is compared
  case-insensitively and metadata is compared by JSON serialization" alone.
\<close>

fun fold_case :: "jsval \<Rightarrow> jsval" where
  "fold_case (JStr s) = JStr (map lower_char s)"
| "fold_case v = v"

definition field_differs_as_stated :: "string \<Rightarrow> form \<Rightarrow> jsval \<Rightarrow> jsval \<Rightarrow> bool" where
  "field_differs_as_stated k f newMeta selected =
     (if k = ''status'' then fold_case (status f) \<noteq> fold_case (own_prop selected ''status'')
      else if k = ''metadata'' then
        JSON_stringify newMeta \<noteq> JSON_stringify (own_prop selected ''metadata'')
      else new_value k f newMeta \<noteq> own_prop selected k)"

text \<open>The object that holds the new value of every field that differs.\<close>

definition changed_body :: "form \<Rightarrow> jsval \<Rightarrow> jsval \<Rightarrow> jsval" where
  "changed_body f newMeta selected =
     JObj (map (\<lambda>k. (k, new_value k f newMeta))
             (filter (\<lambda>k. field_differs k f newMeta selected) update_fields))"

text \<open>
  The REST surface as the specification enumerates it: \<^verbatim>\<open>/assets\<close> (also with an id
  below it) with GET, POST, PUT and DELETE, and \<^verbatim>\<open>/events\<close>, \<^verbatim>\<open>/stats\<close> and
  \<^verbatim>\<open>/healthz\<close> with GET, all under the API base path. \<open>ui_endpoint\<close> adds the
  endpoint of the host metrics.
\<close>

definition under_endpoint :: "string \<Rightarrow> string \<Rightarrow> bool" where
  "under_endpoint p u = (u = p \<or> take (Suc (length p)) u = p @ ''/'')"

definition spec_endpoint :: "request \<Rightarrow> bool" where
  "spec_endpoint r =
     (under_endpoint ENDPOINTS_ASSETS (url r) \<and> verb r \<in> {GET, POST, PUT, DELETE} \<or>
      url r = ENDPOINTS_EVENTS \<and> verb r = GET \<or>
      url r = ENDPOINTS_STATS \<and> verb r = GET \<or>
      url r = ENDPOINTS_HEALTH \<and> verb r = GET)"

definition ui_endpoint :: "request \<Rightarrow> bool" where
  "ui_endpoint r =
     (spec_endpoint r \<or> url r = API_BASE_URL @ ''/system/metrics'' \<and> verb r = GET)"





section \<open>Sample inputs\<close>

text \<open>
  Concrete inputs for the examples: an asset row as \<^verbatim>\<open>GET /assets\<close> lists it, a
  service that accepts every request and counts what it served, a service that cannot
  be reached, and the two answers to a confirmation prompt.
\<close>

definition sample_asset :: jsval where
  "sample_asset =
     JObj [(''id'', JNum 7), (''name'', JStr ''pump''), (''type'', JStr ''hardware''),
           (''location'', JStr ''lab''), (''status'', JStr ''active''),
           (''metadata'', JObj [(''rack'', JStr ''r1'')]),
           (''last_updated'', JStr ''2024-05-01T10:00:00Z'')]"

definition accepting :: "nat \<Rightarrow> request \<Rightarrow> reply \<times> nat" where
  "accepting served r = (Resolved (JArr []), Suc served)"

definition unreachable :: "request \<Rightarrow> reply" where
  "unreachable r = Rejected (JObj [(''message'', JStr ''Network Error'')])"

definition answer_ok :: "string \<Rightarrow> bool" where
  "answer_ok question = True"


text \<open>
  \<^verbatim>\<open>JSON.parse\<close> at the texts of the examples: \<^verbatim>\<open>{}\<close> and \<^verbatim>\<open>{"rack":"r1"}\<close> are
  objects; the empty text and \<^verbatim>\<open>{rack\<close> are not JSON. It is used at these four texts
  only.
\<close>

definition JSON_parse_at :: "string \<Rightarrow> jsval option" where
  "JSON_parse_at t =
     (if t = ''{}'' then Some (JObj [])
      else if t = [CHR ''{'', CHR 0x22, CHR ''r'', CHR ''a'', CHR ''c'', CHR ''k'', CHR 0x22,
                   CHR '':'', CHR 0x22, CHR ''r'', CHR ''1'', CHR 0x22, CHR ''}'']
      then Some (JObj [(''rack'', JStr ''r1'')])
      else None)"

text \<open>An envelope that creates asset 5, and a Processor that has applied nothing.\<close>

definition sample_create :: envelope where
  "sample_create =
     \<lparr>event_id = ''e1'', event_type = EvCreate, node_id = ''n1'', asset_id = Some 5,
      timestamp = 10,
      data = JObj [(''name'', JStr ''pump''), (''metadata'', JObj [])]\<rparr>"

definition empty_processor :: processor where
  "empty_processor =
     \<lparr>p_store = \<lparr>rows = Map.empty, next_id = 1\<rparr>, p_log = [], p_ledger = []\<rparr>"

text \<open>
  States of the Assets page at a submission: an Add dialog whose metadata box was
  cleared; an Edit dialog on \<open>sample_asset\<close> with a metadata text that is not JSON; an
  Edit dialog that was opened on an asset without metadata and left untouched; an Edit
  dialog on \<open>sample_asset\<close> with a new name and status; an Add dialog with metadata.
\<close>

definition blank_submission :: assets_state where
  "blank_submission =
     assets_init\<lparr>a_loading := False, a_addOpen := True,
       a_form := \<lparr>name = JStr ''pump'', type = JStr ''hardware'', location = JStr ''lab'',
                  status = JStr ''active'', metadataText = []\<rparr>\<rparr>"

definition bad_edit :: assets_state where
  "bad_edit =
     assets_init\<lparr>a_loading := False, a_editOpen := True, a_selected := sample_asset,
       a_form := \<lparr>name = JStr ''pump'', type = JStr ''hardware'', location = JStr ''lab'',
                  status = JStr ''active'', metadataText = ''{rack''\<rparr>\<rparr>"

definition asset_without_metadata :: jsval where
  "asset_without_metadata =
     JObj [(''id'', JNum 8), (''name'', JStr ''valve''), (''type'', JStr ''hardware''),
           (''location'', JStr ''lab''), (''status'', JStr ''active''),
           (''metadata'', JNull), (''last_updated'', JStr ''2024-05-01T10:00:00Z'')]"

definition untouched_edit :: assets_state where
  "untouched_edit =
     assets_init\<lparr>a_loading := False, a_editOpen := True, a_selected := asset_without_metadata,
       a_form := \<lparr>name = JStr ''valve'', type = JStr ''hardware'', location = JStr ''lab'',
                  status = JStr ''active'', metadataText = ''{}''\<rparr>\<rparr>"

definition changed_edit :: assets_state where
  "changed_edit =
     assets_init\<lparr>a_loading := False, a_editOpen := True, a_selected := sample_asset,
       a_form := \<lparr>name = JStr ''pump-2'', type = JStr ''hardware'', location = JStr ''lab'',
                  status = JStr ''maintenance'',
                  metadataText = [CHR ''{'', CHR 0x22, CHR ''r'', CHR ''a'', CHR ''c'', CHR ''k'',
                    CHR 0x22, CHR '':'', CHR 0x22, CHR ''r'', CHR ''1'', CHR 0x22, CHR ''}'']\<rparr>\<rparr>"

definition empty_store :: store where
  "empty_store = \<lparr>rows = Map.empty, next_id = 1\<rparr>"

definition add_submission :: assets_state where
  "add_submission =
     assets_init\<lparr>a_loading := False, a_addOpen := True,
       a_form := \<lparr>name = JStr ''pump'', type = JStr ''hardware'', location = JStr ''lab'',
                  status = JStr ''active'',
                  metadataText = [CHR ''{'', CHR 0x22, CHR ''r'', CHR ''a'', CHR ''c'', CHR ''k'',
                    CHR 0x22, CHR '':'', CHR 0x22, CHR ''r'', CHR ''1'', CHR 0x22, CHR ''}'']\<rparr>\<rparr>"

text \<open>
  A \<^verbatim>\<open>/stats\<close> response, a \<^verbatim>\<open>system_metrics\<close> event, the same event with an
  \<^verbatim>\<open>asset_id\<close> added, and an \<^verbatim>\<open>update\<close> event; and three networks: one where
  only the host metrics cannot be reached, one where only \<^verbatim>\<open>/api/stats\<close> cannot, and
  one where every endpoint answers.
\<close>

definition sample_stats :: jsval where
  "sample_stats =
     JObj [(''total_events_processed'', JNum 9),
           (''events_by_type'', JObj [(''create'', JNum 2), (''system_metrics'', JNum 7)]),
           (''last_processed'', JStr ''2024-05-01T10:00:00Z''),
           (''total_assets'', JNum 2), (''active_assets'', JNum 1)]"

definition sample_stats_reordered :: jsval where
  "sample_stats_reordered =
     JObj [(''events_by_type'', JObj [(''system_metrics'', JNum 7), (''create'', JNum 2)]),
           (''total_events_processed'', JNum 9)]"







text \<open>An envelope that deletes asset 5.\<close>

definition sample_delete :: envelope where
  "sample_delete =
     \<lparr>event_id = ''e2'', event_type = EvDelete, node_id = ''n1'', asset_id = Some 5,
      timestamp = 11, data = JObj []\<rparr>"

section \<open>Properties\<close>

lemma js_or_zero: "absent_null_or_zero v \<Longrightarrow> js_or v (JNum 0) = JNum 0"
  by (auto simp: absent_null_or_zero_def js_or_def)

lemma chartData_obj:
  "opt_dot stats ''events_by_type'' = JObj kvs \<Longrightarrow>
   chartData stats = Inr (map (\<lambda>(t, c). \<lparr>entry_type = t, entry_count = c\<rparr>) kvs)"
  by (cases stats) (auto simp: chartData_def opt_dot_def dot_def Object_entries_def)

lemma figure_obj:
  "opt_dot stats ''events_by_type'' = JObj kvs \<Longrightarrow> event_types_figure stats = Inr (length kvs)"
  by (simp add: event_types_figure_def js_or_def Object_keys_def)

lemma chartData_falsy:
  "\<not> truthy (opt_dot stats ''events_by_type'') \<Longrightarrow> chartData stats = Inr []"
  by (simp add: chartData_def)

lemma figure_falsy:
  "\<not> truthy (opt_dot stats ''events_by_type'') \<Longrightarrow> event_types_figure stats = Inr 0"
  by (simp add: event_types_figure_def js_or_def Object_keys_def)

lemma entries_set:
  "distinct (map fst kvs) \<Longrightarrow>
   set (map (\<lambda>(t, c). \<lparr>entry_type = t, entry_count = c\<rparr>) kvs) =
     {\<lparr>entry_type = t, entry_count = c\<rparr> | t c. map_of kvs t = Some c}"
  by (auto simp: image_iff)

lemma entries_types:
  "map entry_type (map (\<lambda>(t, c). \<lparr>entry_type = t, entry_count = c\<rparr>) kvs) = map fst kvs"
  by (induction kvs) auto

lemma chart_of_mapping:
  assumes "events_by_type_of stats = Some kvs"
  shows "chartData stats = Inr (map (\<lambda>(t, c). \<lparr>entry_type = t, entry_count = c\<rparr>) kvs) \<and>
         event_types_figure stats = Inr (length kvs)"
proof (cases "opt_dot stats ''events_by_type''")
  case (JObj kvs')
  with assms have "kvs' = kvs"
    by (auto simp: events_by_type_of_def split: if_splits)
  with JObj show ?thesis
    by (simp add: chartData_obj figure_obj)
next
  case JUndefined
  with assms have "kvs = []" by (simp add: events_by_type_of_def)
  with JUndefined show ?thesis
    by (simp add: chartData_falsy figure_falsy)
next
  case JNull
  with assms have "kvs = []" by (simp add: events_by_type_of_def)
  with JNull show ?thesis
    by (simp add: chartData_falsy figure_falsy)
qed (use assms in \<open>simp_all add: events_by_type_of_def\<close>)

lemma mapping_distinct:
  "events_by_type_of stats = Some kvs \<Longrightarrow> distinct (map fst kvs)"
  by (auto simp: events_by_type_of_def split: jsval.splits if_splits)

lemma mapping_nullish:
  "events_by_type_of stats = Some kvs \<Longrightarrow> nullish (opt_dot stats ''events_by_type'') \<Longrightarrow> kvs = []"
  by (auto simp: events_by_type_of_def split: jsval.splits if_splits)

subsection \<open>The events-by-type chart\<close>

text \<open>
  C7. For every \<^verbatim>\<open>/stats\<close> response whose \<^verbatim>\<open>events_by_type\<close> is a mapping \<open>kvs\<close>
  (or is absent, the empty mapping), \<^verbatim>\<open>chartData\<close> has exactly one entry for each key:
  no event type occurs twice, and the entries are exactly the pairs of a key and the
  count stored under it. The "Event Types" figure is the number of keys. An absent
  \<^verbatim>\<open>events_by_type\<close> gives the empty chart. A response that carries the same entries
  inserted in another order gives the same entries in the chart (in that other order)
  and the same figure.
\<close>

theorem chart_one_entry_per_key:
  assumes "events_by_type_of stats = Some kvs"
  shows "\<exists>cd. chartData stats = Inr cd \<and>
           distinct (map entry_type cd) \<and>
           set cd = {\<lparr>entry_type = t, entry_count = c\<rparr> | t c. map_of kvs t = Some c} \<and>
           event_types_figure stats = Inr (card (dom (map_of kvs))) \<and>
           (nullish (opt_dot stats ''events_by_type'') \<longrightarrow> cd = []) \<and>
           (\<forall>stats' kvs'. events_by_type_of stats' = Some kvs' \<and> mset kvs' = mset kvs \<longrightarrow>
              (\<exists>cd'. chartData stats' = Inr cd' \<and> mset cd' = mset cd) \<and>
              event_types_figure stats' = event_types_figure stats)"
proof -
  let ?mk = "\<lambda>(t, c). \<lparr>entry_type = t, entry_count = c\<rparr>"
  let ?cd = "map ?mk kvs"
  note c = chart_of_mapping [OF assms]
  have d: "distinct (map fst kvs)"
    using assms by (rule mapping_distinct)
  have types: "distinct (map entry_type ?cd)"
    using d by (simp only: entries_types)
  have n: "card (dom (map_of kvs)) = length kvs"
    using d by (simp add: dom_map_of_conv_image_fst distinct_card flip: set_map)
  have e: "nullish (opt_dot stats ''events_by_type'') \<longrightarrow> ?cd = []"
    using mapping_nullish [OF assms] by simp
  have p: "(\<exists>cd'. chartData stats' = Inr cd' \<and> mset cd' = mset ?cd) \<and>
           event_types_figure stats' = event_types_figure stats"
    if "events_by_type_of stats' = Some kvs'" "mset kvs' = mset kvs" for stats' kvs'
  proof -
    have "mset (map ?mk kvs') = mset ?cd"
      using that(2) by (simp only: mset_map)
    moreover have "length kvs' = length kvs"
      using that(2) by (rule mset_eq_length)
    ultimately show ?thesis
      using chart_of_mapping [OF that(1)] c by simp
  qed
  show ?thesis
    using c types entries_set [OF d] n e p by (intro exI [of _ ?cd]) simp
qed

theorem chart_one_entry_per_key_witness:
  "events_by_type_of sample_stats = Some [(''create'', JNum 2), (''system_metrics'', JNum 7)] \<and>
   events_by_type_of sample_stats_reordered
     = Some [(''system_metrics'', JNum 7), (''create'', JNum 2)] \<and>
   mset [(''system_metrics'', JNum 7), (''create'', JNum 2)]
     = mset [(''create'', JNum 2), (''system_metrics'', JNum 7)] \<and>
   (\<exists>cd. chartData sample_stats = Inr cd \<and>
      set cd = {\<lparr>entry_type = ''create'', entry_count = JNum 2\<rparr>,
                \<lparr>entry_type = ''system_metrics'', entry_count = JNum 7\<rparr>} \<and>
      distinct (map entry_type cd) \<and>
      (\<exists>cd'. chartData sample_stats_reordered = Inr cd' \<and> mset cd' = mset cd)) \<and>
   event_types_figure sample_stats = Inr 2 \<and>
   event_types_figure sample_stats_reordered = event_types_figure sample_stats"
proof -
  let ?k = "[(''create'', JNum 2), (''system_metrics'', JNum 7)]"
  let ?k' = "[(''system_metrics'', JNum 7), (''create'', JNum 2)]"
  have h: "events_by_type_of sample_stats = Some ?k"
    by code_simp
  have h': "events_by_type_of sample_stats_reordered = Some ?k'"
    by code_simp
  have m: "mset ?k' = mset ?k"
    by (simp add: add_mset_commute)
  have c: "card (dom (map_of ?k)) = 2"
    by (simp add: dom_map_of_conv_image_fst)
  have s: "{\<lparr>entry_type = t, entry_count = k\<rparr> | t k. map_of ?k t = Some k} =
           {\<lparr>entry_type = ''create'', entry_count = JNum 2\<rparr>,
            \<lparr>entry_type = ''system_metrics'', entry_count = JNum 7\<rparr>}"
    by (auto split: if_splits)
  obtain cd where cd: "chartData sample_stats = Inr cd" "distinct (map entry_type cd)"
    "set cd = {\<lparr>entry_type = t, entry_count = k\<rparr> | t k. map_of ?k t = Some k}"
    "event_types_figure sample_stats = Inr (card (dom (map_of ?k)))"
    "\<forall>stats' kvs'. events_by_type_of stats' = Some kvs' \<and> mset kvs' = mset ?k \<longrightarrow>
              (\<exists>cd'. chartData stats' = Inr cd' \<and> mset cd' = mset cd) \<and>
              event_types_figure stats' = event_types_figure sample_stats"
    using chart_one_entry_per_key [OF h] by blast
  have r: "(\<exists>cd'. chartData sample_stats_reordered = Inr cd' \<and> mset cd' = mset cd) \<and>
           event_types_figure sample_stats_reordered = event_types_figure sample_stats"
    using cd(5) h' m by blast
  show ?thesis
    using h h' m cd(1,2) cd(3) [unfolded s] cd(4) [unfolded c] r by blast
qed

subsection \<open>Missing counters\<close>

text \<open>
  C10. When \<^verbatim>\<open>total_assets\<close>, \<^verbatim>\<open>total_events_processed\<close> or \<^verbatim>\<open>active_assets\<close> of
  a \<^verbatim>\<open>/stats\<close> response is absent, \<^verbatim>\<open>null\<close> or zero, the Dashboard's card of that
  figure holds the number 0, and so do the two places of the Stats page that show
  \<^verbatim>\<open>total_events_processed\<close> (the Stats page shows neither asset counter). A missing
  counter is shown as a counter that is zero is.
\<close>

theorem missing_counter_displays_zero:
  "(absent_null_or_zero (opt_dot stats ''total_assets'') \<longrightarrow>
      card_value ''Total Assets'' stats = Some (JNum 0)) \<and>
   (absent_null_or_zero (opt_dot stats ''total_events_processed'') \<longrightarrow>
      card_value ''Events Processed'' stats = Some (JNum 0) \<and>
      total_events_figure stats = JNum 0 \<and> events_today_figure stats = JNum 0) \<and>
   (absent_null_or_zero (opt_dot stats ''active_assets'') \<longrightarrow>
      card_value ''Active Assets'' stats = Some (JNum 0))"
  by (simp add: card_value_def statCards_def total_events_figure_def events_today_figure_def
      js_or_zero)

theorem missing_counter_displays_zero_witness:
  "card_value ''Total Assets'' (JObj [(''total_assets'', JNull), (''active_assets'', JNum 0)])
     = Some (JNum 0) \<and>
   card_value ''Events Processed'' (JObj [(''total_assets'', JNull), (''active_assets'', JNum 0)])
     = Some (JNum 0) \<and>
   total_events_figure (JObj [(''total_assets'', JNull), (''active_assets'', JNum 0)]) = JNum 0 \<and>
   events_today_figure (JObj [(''total_assets'', JNull), (''active_assets'', JNum 0)]) = JNum 0 \<and>
   card_value ''Active Assets'' (JObj [(''total_assets'', JNull), (''active_assets'', JNum 0)])
     = Some (JNum 0)"
  using missing_counter_displays_zero
          [of "JObj [(''total_assets'', JNull), (''active_assets'', JNum 0)]"]
  by (simp add: absent_null_or_zero_def opt_dot_def)

subsection \<open>Idempotent apply\<close>

lemma updateAsset_error_timeless:
  "updateAsset k d t1 st = Inl err \<Longrightarrow> updateAsset k d t2 st = Inl err"
  by (auto simp: updateAsset_def split: option.splits if_splits)

lemma event_effect_error_timeless:
  "event_effect e t1 st = Inl err \<Longrightarrow> event_effect e t2 st = Inl err"
  by (auto simp: event_effect_def split: event_type.splits option.splits if_splits
      dest: updateAsset_error_timeless)

lemma applyEvent_ledger_hit:
  "event_id e \<in> set (p_ledger p) \<Longrightarrow> applyEvent e t p = Inr p"
  by (simp add: applyEvent_def)

lemma applyEvent_records:
  "applyEvent e t p = Inr p' \<Longrightarrow> event_id e \<in> set (p_ledger p')"
  by (auto simp: applyEvent_def split: if_splits sum.splits)

lemma applyEvent_error_timeless:
  "applyEvent e t1 p = Inl err \<Longrightarrow> applyEvent e t2 p = Inl err"
  using event_effect_error_timeless [of e t1 "p_store p" _ t2]
  by (auto simp: applyEvent_def split: if_splits sum.splits)

lemma ledger_grows:
  "i \<in> set (p_ledger p) \<Longrightarrow> i \<in> set (p_ledger (persisted p (applyEvent e t p)))"
  by (auto simp: persisted_def applyEvent_def split: sum.splits)

lemma ledger_grows_all:
  "i \<in> set (p_ledger p) \<Longrightarrow> i \<in> set (p_ledger (applyAll ds p))"
proof (induction ds arbitrary: p)
  case Nil
  then show ?case by simp
next
  case (Cons d ds)
  obtain e t where d: "d = (e, t)" by (cases d)
  show ?case
    unfolding d using Cons.IH [OF ledger_grows [OF Cons.prems, of e t]] by simp
qed

lemma applyAll_append: "applyAll (xs @ ys) p = applyAll ys (applyAll xs p)"
  by (induction xs arbitrary: p) auto

text \<open>
  C1. Applying an envelope to the Processor a second time (a redelivery of the same
  \<^verbatim>\<open>event_id\<close>, at whatever later time) leaves the persisted state, and so the
  Assets, as the first application left it; this also holds when the first attempt
  failed, since the second fails alike and nothing is written. More generally, once an
  envelope has been applied, a redelivery after any further deliveries changes nothing:
  after a successful application followed by any deliveries \<open>ds\<close> the redelivery returns
  the state as it is, and a delivery sequence with a redelivery in it (of an
  \<^verbatim>\<open>event_id\<close> that the ledger holds at that point) ends in the same persisted state
  as the sequence without it.
\<close>

theorem applyEvent_idempotent:
  "persisted (persisted p (applyEvent e t1 p))
     (applyEvent e t2 (persisted p (applyEvent e t1 p)))
   = persisted p (applyEvent e t1 p) \<and>
   (\<forall>p1 ds t. applyEvent e t1 p = Inr p1 \<longrightarrow>
      applyEvent e t (applyAll ds p1) = Inr (applyAll ds p1)) \<and>
   (\<forall>xs ys t. event_id e \<in> set (p_ledger (applyAll xs p)) \<longrightarrow>
      applyEvent e t (applyAll xs p) = Inr (applyAll xs p) \<and>
      applyAll (xs @ (e, t) # ys) p = applyAll (xs @ ys) p)"
proof (intro conjI allI impI)
  show "persisted (persisted p (applyEvent e t1 p))
     (applyEvent e t2 (persisted p (applyEvent e t1 p)))
   = persisted p (applyEvent e t1 p)"
  proof (cases "applyEvent e t1 p")
    case (Inl err)
    then show ?thesis
      using applyEvent_error_timeless [OF Inl, of t2] by (simp add: persisted_def)
  next
    case (Inr p')
    then show ?thesis
      using applyEvent_ledger_hit [OF applyEvent_records [OF Inr], of t2]
      by (simp add: persisted_def)
  qed
next
  fix p1 ds t
  assume "applyEvent e t1 p = Inr p1"
  then have "event_id e \<in> set (p_ledger p1)"
    by (rule applyEvent_records)
  then have "event_id e \<in> set (p_ledger (applyAll ds p1))"
    by (rule ledger_grows_all)
  then show "applyEvent e t (applyAll ds p1) = Inr (applyAll ds p1)"
    by (rule applyEvent_ledger_hit)
next
  fix xs ys t
  assume a: "event_id e \<in> set (p_ledger (applyAll xs p))"
  then show hit: "applyEvent e t (applyAll xs p) = Inr (applyAll xs p)"
    by (rule applyEvent_ledger_hit)
  show "applyAll (xs @ (e, t) # ys) p = applyAll (xs @ ys) p"
    by (simp add: applyAll_append hit persisted_def)
qed

theorem applyEvent_idempotent_witness:
  "event_id sample_create
     \<in> set (p_ledger (applyAll [(sample_create, 3), (sample_delete, 4)] empty_processor)) \<and>
   applyEvent sample_create 3 empty_processor
     = Inr (applyAll [(sample_create, 3)] empty_processor) \<and>
   map_option as_name
     (rows (p_store (applyAll [(sample_create, 3)] empty_processor)) 5) = Some (JStr ''pump'') \<and>
   applyAll ([(sample_create, 3), (sample_delete, 4)] @ (sample_create, 5) # []) empty_processor
     = applyAll [(sample_create, 3), (sample_delete, 4)] empty_processor \<and>
   rows (p_store (applyAll [(sample_create, 3), (sample_delete, 4), (sample_create, 5)]
                    empty_processor)) 5 = None \<and>
   p_ledger (applyAll [(sample_create, 3), (sample_delete, 4), (sample_create, 5)] empty_processor)
     = [''e2'', ''e1'']"
proof -
  have ev: "applyEvent sample_create 3 empty_processor
              = Inr (applyAll [(sample_create, 3)] empty_processor)"
    by (simp add: persisted_def applyEvent_def event_effect_def sample_create_def
        empty_processor_def)
  have two: "p_ledger (applyAll [(sample_create, 3), (sample_delete, 4)] empty_processor)
               = [''e2'', ''e1''] \<and>
             rows (p_store (applyAll [(sample_create, 3), (sample_delete, 4)] empty_processor)) 5
               = None \<and>
             map_option as_name
               (rows (p_store (applyAll [(sample_create, 3)] empty_processor)) 5)
               = Some (JStr ''pump'')"
    by (simp add: persisted_def applyEvent_def event_effect_def deleteAsset_def sample_create_def
        sample_delete_def empty_processor_def)
  have h: "event_id sample_create
     \<in> set (p_ledger (applyAll [(sample_create, 3), (sample_delete, 4)] empty_processor))"
    using two by (simp add: sample_create_def)
  note t = applyEvent_idempotent [of empty_processor sample_create 3 3,
      THEN conjunct2, THEN conjunct2, rule_format,
      of "[(sample_create, 3), (sample_delete, 4)]" 5 "[]", OF h, THEN conjunct2]
  have t': "applyAll ([(sample_create, 3), (sample_delete, 4)] @ (sample_create, 5) # [])
              empty_processor
            = applyAll [(sample_create, 3), (sample_delete, 4)] empty_processor"
    using t by (simp only: append_Nil2)
  have three: "applyAll [(sample_create, 3), (sample_delete, 4), (sample_create, 5)] empty_processor
                 = applyAll [(sample_create, 3), (sample_delete, 4)] empty_processor"
    using t' by (simp only: append.simps)
  have c5: "rows (p_store (applyAll [(sample_create, 3), (sample_delete, 4), (sample_create, 5)]
                    empty_processor)) 5 = None"
    unfolding three by (rule two [THEN conjunct2, THEN conjunct1])
  have c6: "p_ledger (applyAll [(sample_create, 3), (sample_delete, 4), (sample_create, 5)]
                    empty_processor) = [''e2'', ''e1'']"
    unfolding three by (rule two [THEN conjunct1])
  show ?thesis
    by (intro conjI) (rule h, rule ev, rule two [THEN conjunct2, THEN conjunct2], rule t',
        rule c5, rule c6)
qed

subsection \<open>Requests of the Assets page\<close>

lemma fetchAssets_requests:
  "requests_of (fst (fetchAssets serve ui s)) = [axios_get ENDPOINTS_ASSETS]"
  by (auto simp: fetchAssets_def Let_def split: prod.splits reply.splits)



subsection \<open>Creating an asset\<close>

lemma handleAddSubmit_requests:
  "requests_of (fst (handleAddSubmit parse serve ui s)) =
     (case parseMetadata parse (a_form ui) of
        Inl e \<Rightarrow> []
      | Inr md \<Rightarrow>
          axios_post ENDPOINTS_ASSETS (add_payload (a_form ui) md) #
            (case fst (serve s (axios_post ENDPOINTS_ASSETS (add_payload (a_form ui) md))) of
               Resolved d \<Rightarrow> [axios_get ENDPOINTS_ASSETS]
             | Rejected e \<Rightarrow> []))"
proof (cases "parseMetadata parse (a_form ui)")
  case (Inl e)
  then show ?thesis by (cases e) (simp_all add: handleAddSubmit_def)
next
  case (Inr md)
  let ?r = "axios_post ENDPOINTS_ASSETS (add_payload (a_form ui) md)"
  show ?thesis
    using Inr fetchAssets_requests [of serve "(closeAll ui)\<lparr>a_loading := True\<rparr>" "snd (serve s ?r)"]
    by (cases "serve s ?r"; cases "fst (serve s ?r)")
       (auto simp: handleAddSubmit_def Let_def split: prod.splits reply.splits)
qed

lemma add_payload_keys:
  "map fst (own_entries (add_payload f md)) = [''name'', ''type'', ''location'', ''metadata'']"
  by (simp add: add_payload_def)

lemma add_payload_props:
  "own_prop (add_payload f md) ''name'' = name f"
  "own_prop (add_payload f md) ''type'' = type f"
  "own_prop (add_payload f md) ''location'' = location f"
  "own_prop (add_payload f md) ''metadata'' = md"
  "own_prop (add_payload f md) ''status'' = JUndefined"
  by (simp_all add: add_payload_def)

lemma create_then_get:
  "createAsset payload now st = Inr (i, st') \<Longrightarrow>
   getAsset i st' = Inr \<lparr>as_id = i, as_name = own_prop payload ''name'',
     as_type = own_prop payload ''type'', as_location = own_prop payload ''location'',
     as_status = Active, as_metadata = own_prop payload ''metadata'', as_last_updated = now\<rparr>"
  by (auto simp: createAsset_def getAsset_def split: if_splits)

text \<open>
  C2. Whatever the Add Asset dialog holds at a submission, the POST requests of
  \<^verbatim>\<open>handleAddSubmit\<close> are at most one: none when the metadata text is rejected, else a
  POST to \<^verbatim>\<open>ENDPOINTS.ASSETS\<close> whose body has exactly the keys name, type, location
  and metadata, and so no status. When the store creates an Asset from that body,
  fetching it by the id it was given returns the same name, type, location and
  metadata, the status \<^verbatim>\<open>active\<close>, and \<^verbatim>\<open>last_updated\<close> set to the time of the
  creation.
\<close>

theorem add_request_and_round_trip:
  "filter (\<lambda>r. verb r = POST) (requests_of (fst (handleAddSubmit parse serve ui s))) =
     (case parseMetadata parse (a_form ui) of
        Inl e \<Rightarrow> []
      | Inr md \<Rightarrow> [axios_post ENDPOINTS_ASSETS (add_payload (a_form ui) md)]) \<and>
   map fst (own_entries (add_payload f md)) = [''name'', ''type'', ''location'', ''metadata''] \<and>
   own_prop (add_payload f md) ''status'' = JUndefined \<and>
   (createAsset (add_payload f md) now st = Inr (i, st') \<longrightarrow>
      (\<exists>a. getAsset i st' = Inr a \<and> as_name a = name f \<and> as_type a = type f \<and>
           as_location a = location f \<and> as_metadata a = md \<and>
           as_status a = Active \<and> as_last_updated a = now))"
proof -
  have posts: "filter (\<lambda>r. verb r = POST) (requests_of (fst (handleAddSubmit parse serve ui s))) =
     (case parseMetadata parse (a_form ui) of
        Inl e \<Rightarrow> []
      | Inr md \<Rightarrow> [axios_post ENDPOINTS_ASSETS (add_payload (a_form ui) md)])"
    unfolding handleAddSubmit_requests
    by (simp add: axios_post_def axios_get_def split: sum.splits reply.splits)
  have rt: "\<exists>a. getAsset i st' = Inr a \<and> as_name a = name f \<and> as_type a = type f \<and>
           as_location a = location f \<and> as_metadata a = md \<and>
           as_status a = Active \<and> as_last_updated a = now"
    if "createAsset (add_payload f md) now st = Inr (i, st')"
    using create_then_get [OF that] by (simp add: add_payload_props)
  show ?thesis
    using posts rt by (simp add: add_payload_keys add_payload_props)
qed

theorem add_request_and_round_trip_witness:
  "createAsset (add_payload (a_form add_submission) (JObj [(''rack'', JStr ''r1'')])) 42 empty_store
     = Inr (1, snd (projr (createAsset
         (add_payload (a_form add_submission) (JObj [(''rack'', JStr ''r1'')])) 42 empty_store))) \<and>
   (\<exists>a. getAsset 1 (snd (projr (createAsset
         (add_payload (a_form add_submission) (JObj [(''rack'', JStr ''r1'')])) 42 empty_store)))
          = Inr a \<and>
        as_name a = JStr ''pump'' \<and> as_type a = JStr ''hardware'' \<and>
        as_location a = JStr ''lab'' \<and> as_metadata a = JObj [(''rack'', JStr ''r1'')] \<and>
        as_status a = Active \<and> as_last_updated a = 42) \<and>
   filter (\<lambda>r. verb r = POST)
     (requests_of (fst (handleAddSubmit JSON_parse_at accepting add_submission 0)))
     = [axios_post ''/api/assets''
          (JObj [(''name'', JStr ''pump''), (''type'', JStr ''hardware''),
                 (''location'', JStr ''lab''), (''metadata'', JObj [(''rack'', JStr ''r1'')])])]"
proof -
  let ?c = "createAsset (add_payload (a_form add_submission) (JObj [(''rack'', JStr ''r1'')])) 42
              empty_store"
  have h: "?c = Inr (1, snd (projr ?c))"
    by (simp add: createAsset_def add_payload_def empty_store_def)
  have f: "name (a_form add_submission) = JStr ''pump''"
    "type (a_form add_submission) = JStr ''hardware''"
    "location (a_form add_submission) = JStr ''lab''"
    by (simp_all add: add_submission_def)
  have pm: "parseMetadata JSON_parse_at (a_form add_submission) = Inr (JObj [(''rack'', JStr ''r1'')])"
    by code_simp
  have pl: "axios_post ENDPOINTS_ASSETS
              (add_payload (a_form add_submission) (JObj [(''rack'', JStr ''r1'')]))
            = axios_post ''/api/assets''
          (JObj [(''name'', JStr ''pump''), (''type'', JStr ''hardware''),
                 (''location'', JStr ''lab''), (''metadata'', JObj [(''rack'', JStr ''r1'')])])"
    by code_simp
  show ?thesis
    using add_request_and_round_trip
      [of JSON_parse_at accepting add_submission 0 "a_form add_submission"
          "JObj [(''rack'', JStr ''r1'')]" 42 empty_store 1 "snd (projr ?c)"] h
    by (simp add: f pm pl)
qed

subsection \<open>Metadata that is not JSON\<close>

lemma parseMetadata_invalid:
  "parse (metadataText f) = None \<Longrightarrow> \<not> blank (metadataText f) \<Longrightarrow>
   parseMetadata parse f = Inl (Error ''Metadata must be valid JSON'')"
  by (simp add: parseMetadata_def blank_def)

lemma parseMetadata_blank:
  "blank (metadataText f) \<Longrightarrow> parseMetadata parse f = Inr (JObj [])"
  by (simp add: parseMetadata_def blank_def)

lemma toLowerCase_string_or_falsy:
  "string_or_falsy v \<Longrightarrow> \<exists>t. toLowerCase (js_or v (JStr [])) = Inr t"
  by (cases v) (auto simp: js_or_def)

lemma build_update_failure:
  "parseMetadata parse f = Inl e \<Longrightarrow> \<exists>e'. build_update parse f sel = Inl e'"
  by (auto simp: build_update_def Let_def split: sum.splits)

lemma build_update_invalid:
  assumes "parseMetadata parse f = Inl e" "\<not> nullish sel" "string_or_falsy (status f)"
    "string_or_falsy (own_prop sel ''status'')"
  shows "build_update parse f sel = Inl e"
  using assms toLowerCase_string_or_falsy [of "status f"]
    toLowerCase_string_or_falsy [of "own_prop sel ''status''"]
  by (auto simp: build_update_def changed_status_def Let_def split: sum.splits)

text \<open>
  C3, amended. When the metadata text of a create or edit submission is not blank and
  \<^verbatim>\<open>JSON.parse\<close> rejects it, no request is sent and the page and the service (with its
  asset store) stay as they were. The create submission alerts "Metadata must be valid
  JSON", and so does the edit submission of an asset whose status is a string or is
  missing. (A blank text is not rejected: it stands for \<^verbatim>\<open>{}\<close>.)
\<close>

theorem invalid_metadata_rejected:
  assumes "parse (metadataText (a_form ui)) = None"
    and "\<not> blank (metadataText (a_form ui))"
  shows "handleAddSubmit parse serve ui s = ([Alert (JStr ''Metadata must be valid JSON'')], ui, s) \<and>
         requests_of (fst (handleEditSubmit parse serve ui s)) = [] \<and>
         snd (handleEditSubmit parse serve ui s) = (ui, s) \<and>
         (\<not> nullish (a_selected ui) \<and> string_or_falsy (status (a_form ui)) \<and>
          string_or_falsy (own_prop (a_selected ui) ''status'') \<longrightarrow>
            handleEditSubmit parse serve ui s
              = ([Alert (JStr ''Metadata must be valid JSON'')], ui, s))"
proof -
  have pm: "parseMetadata parse (a_form ui) = Inl (Error ''Metadata must be valid JSON'')"
    using assms by (rule parseMetadata_invalid)
  have add: "handleAddSubmit parse serve ui s
               = ([Alert (JStr ''Metadata must be valid JSON'')], ui, s)"
    by (simp add: handleAddSubmit_def pm js_or_def)
  obtain e' where bu: "build_update parse (a_form ui) (a_selected ui) = Inl e'"
    using build_update_failure [OF pm] by blast
  have edit0: "handleEditSubmit parse serve ui s = ([alert_message e' ''Failed to update asset''], ui, s)"
    by (simp add: handleEditSubmit_def bu)
  have noreq: "requests_of [alert_message e' ''Failed to update asset''] = []"
    by (cases e') simp_all
  have edit1: "handleEditSubmit parse serve ui s
                 = ([Alert (JStr ''Metadata must be valid JSON'')], ui, s)"
    if "\<not> nullish (a_selected ui)" "string_or_falsy (status (a_form ui))"
       "string_or_falsy (own_prop (a_selected ui) ''status'')"
    using build_update_invalid [OF pm that] by (simp add: handleEditSubmit_def js_or_def)
  show ?thesis
    using add edit0 noreq edit1 by simp
qed

theorem invalid_metadata_rejected_witness:
  "JSON_parse_at (metadataText (a_form bad_edit)) = None \<and>
   \<not> blank (metadataText (a_form bad_edit)) \<and>
   \<not> nullish (a_selected bad_edit) \<and> string_or_falsy (status (a_form bad_edit)) \<and>
   string_or_falsy (own_prop (a_selected bad_edit) ''status'') \<and>
   handleAddSubmit JSON_parse_at accepting bad_edit 0
     = ([Alert (JStr ''Metadata must be valid JSON'')], bad_edit, 0) \<and>
   handleEditSubmit JSON_parse_at accepting bad_edit 0
     = ([Alert (JStr ''Metadata must be valid JSON'')], bad_edit, 0)"
proof -
  have h1: "JSON_parse_at (metadataText (a_form bad_edit)) = None"
    by (simp add: bad_edit_def JSON_parse_at_def)
  have h2: "\<not> blank (metadataText (a_form bad_edit))"
    by (simp add: bad_edit_def blank_def trim_def js_whitespace_def)
  have h3: "\<not> nullish (a_selected bad_edit) \<and> string_or_falsy (status (a_form bad_edit)) \<and>
            string_or_falsy (own_prop (a_selected bad_edit) ''status'')"
    by (simp add: bad_edit_def sample_asset_def)
  show ?thesis
    using invalid_metadata_rejected [of JSON_parse_at bad_edit accepting 0, OF h1 h2] h1 h2 h3 by simp
qed

text \<open>
  C3 as stated fails on a blank metadata text: the empty text is not valid JSON, yet
  the create submission sends a POST with the metadata \<^verbatim>\<open>{}\<close>, and then the GET, so
  that the service has served two requests.
\<close>

theorem blank_metadata_counterexample:
  "JSON_parse_at (metadataText (a_form blank_submission)) = None \<and>
   requests_of (fst (handleAddSubmit JSON_parse_at accepting blank_submission 0))
     = [axios_post ''/api/assets''
          (JObj [(''name'', JStr ''pump''), (''type'', JStr ''hardware''),
                 (''location'', JStr ''lab''), (''metadata'', JObj [])]),
        axios_get ''/api/assets''] \<and>
   snd (snd (handleAddSubmit JSON_parse_at accepting blank_submission 0)) = 2"
  by (simp add: blank_submission_def JSON_parse_at_def handleAddSubmit_def parseMetadata_def
      trim_def add_payload_def accepting_def fetchAssets_def Let_def ENDPOINTS_ASSETS_def
      API_BASE_URL_def assets_init_def closeAll_def)

subsection \<open>Editing an asset\<close>

lemma build_update_body:
  assumes "build_update parse f sel = Inr u"
  shows "\<exists>newMeta. parseMetadata parse f = Inr newMeta \<and> u = changed_body f newMeta sel"
proof -
  from assms obtain cs newMeta where
    cs: "changed_status f sel = Inr cs" and pm: "parseMetadata parse f = Inr newMeta"
    by (auto simp: build_update_def Let_def split: if_splits sum.splits)
  have st: "cs = field_differs ''status'' f newMeta sel"
    using cs by (auto simp: changed_status_def field_differs_def split: sum.splits)
  have md: "changed_metadata newMeta sel = field_differs ''metadata'' f newMeta sel"
    by (simp add: changed_metadata_def field_differs_def)
  have u: "u = JObj ((if name f \<noteq> own_prop sel ''name'' then [(''name'', name f)] else [])
                   @ (if type f \<noteq> own_prop sel ''type'' then [(''type'', type f)] else [])
                   @ (if location f \<noteq> own_prop sel ''location''
                      then [(''location'', location f)] else [])
                   @ (if cs then [(''status'', status f)] else [])
                   @ (if changed_metadata newMeta sel then [(''metadata'', newMeta)] else []))"
    using assms cs pm by (auto simp: build_update_def Let_def split: if_splits)
  have "u = changed_body f newMeta sel"
    unfolding u st md changed_body_def update_fields_def
    by (simp add: field_differs_def new_value_def)
  with pm show ?thesis by blast
qed

lemma handleEditSubmit_requests:
  "requests_of (fst (handleEditSubmit parse serve ui s)) =
     (case build_update parse (a_form ui) (a_selected ui) of
        Inl e \<Rightarrow> []
      | Inr u \<Rightarrow>
          axios_put (asset_url (a_selected ui)) u #
            (case fst (serve s (axios_put (asset_url (a_selected ui)) u)) of
               Resolved d \<Rightarrow> [axios_get ENDPOINTS_ASSETS]
             | Rejected e \<Rightarrow> []))"
proof (cases "build_update parse (a_form ui) (a_selected ui)")
  case (Inl e)
  then show ?thesis by (cases e) (simp_all add: handleEditSubmit_def)
next
  case (Inr u)
  let ?r = "axios_put (asset_url (a_selected ui)) u"
  show ?thesis
    using Inr fetchAssets_requests [of serve "(closeAll ui)\<lparr>a_loading := True\<rparr>" "snd (serve s ?r)"]
    by (cases "serve s ?r"; cases "fst (serve s ?r)")
       (auto simp: handleEditSubmit_def Let_def split: prod.splits reply.splits)
qed

text \<open>
  C8, amended. Every PUT request of \<^verbatim>\<open>handleEditSubmit\<close> goes to the URL of the
  selected asset, and its body holds exactly those of name, type, location, status and
  metadata whose new value differs from the selected asset's, each with its new value:
  the status is compared in lower case with a missing status read as the empty string,
  the metadata by JSON serialization with a missing metadata read as \<^verbatim>\<open>{}\<close>. The
  fields that do not differ are left out.
\<close>

theorem put_body_is_changed_fields:
  assumes "r \<in> set (requests_of (fst (handleEditSubmit parse serve ui s)))"
    and "verb r = PUT"
  shows "\<exists>newMeta. parseMetadata parse (a_form ui) = Inr newMeta \<and>
           url r = asset_url (a_selected ui) \<and>
           body r = changed_body (a_form ui) newMeta (a_selected ui)"
proof (cases "build_update parse (a_form ui) (a_selected ui)")
  case (Inl e)
  with assms(1) show ?thesis by (simp add: handleEditSubmit_requests)
next
  case (Inr u)
  have "verb (axios_get ENDPOINTS_ASSETS) \<noteq> PUT" by (simp add: axios_get_def)
  with assms Inr have "r = axios_put (asset_url (a_selected ui)) u"
    by (auto simp: handleEditSubmit_requests split: reply.splits)
  then show ?thesis
    using build_update_body [OF Inr] by (auto simp: axios_put_def)
qed


theorem put_body_is_changed_fields_witness:
  "axios_put ''/api/assets/7'' (JObj [(''name'', JStr ''pump-2''), (''status'', JStr ''maintenance'')])
     \<in> set (requests_of (fst (handleEditSubmit JSON_parse_at accepting changed_edit 0))) \<and>
   verb (axios_put ''/api/assets/7''
           (JObj [(''name'', JStr ''pump-2''), (''status'', JStr ''maintenance'')])) = PUT \<and>
   (\<exists>newMeta. parseMetadata JSON_parse_at (a_form changed_edit) = Inr newMeta \<and>
      ''/api/assets/7'' = asset_url (a_selected changed_edit) \<and>
      JObj [(''name'', JStr ''pump-2''), (''status'', JStr ''maintenance'')]
        = changed_body (a_form changed_edit) newMeta (a_selected changed_edit))"
proof -
  let ?r = "axios_put ''/api/assets/7''
              (JObj [(''name'', JStr ''pump-2''), (''status'', JStr ''maintenance'')])"
  have url: "asset_url (a_selected changed_edit) = ''/api/assets/7''"
    by code_simp
  have bu: "build_update JSON_parse_at (a_form changed_edit) (a_selected changed_edit)
              = Inr (JObj [(''name'', JStr ''pump-2''), (''status'', JStr ''maintenance'')])"
    by code_simp
  have h1: "?r \<in> set (requests_of (fst (handleEditSubmit JSON_parse_at accepting changed_edit 0)))"
    unfolding handleEditSubmit_requests bu url by simp
  have h2: "verb ?r = PUT" by (simp add: axios_put_def)
  show ?thesis
    using put_body_is_changed_fields [OF h1 h2] h1 h2 by (simp add: axios_put_def)
qed

text \<open>
  C8 as stated fails for an asset whose metadata is \<^verbatim>\<open>null\<close>: the form's metadata
  \<^verbatim>\<open>{}\<close> differs from it by JSON serialization (\<^verbatim>\<open>{}\<close> against \<^verbatim>\<open>null\<close>), yet the
  body of the PUT is empty.
\<close>

theorem missing_metadata_counterexample:
  "parseMetadata JSON_parse_at (a_form untouched_edit) = Inr (JObj []) \<and>
   field_differs_as_stated ''metadata'' (a_form untouched_edit) (JObj []) (a_selected untouched_edit) \<and>
   requests_of (fst (handleEditSubmit JSON_parse_at accepting untouched_edit 0))
     = [axios_put ''/api/assets/8'' (JObj []), axios_get ''/api/assets'']"
  by code_simp

subsection \<open>Endpoints\<close>

lemma under_assets_url: "under_endpoint ENDPOINTS_ASSETS (asset_url a)"
  by (simp add: under_endpoint_def asset_url_def)

lemma ui_endpoint_assets:
  "ui_endpoint (axios_get ENDPOINTS_ASSETS)"
  "ui_endpoint (axios_post ENDPOINTS_ASSETS b)"
  "ui_endpoint (axios_put (asset_url a) b)"
  "ui_endpoint (axios_delete (asset_url a))"
  using under_assets_url [of a]
  by (simp_all add: ui_endpoint_def spec_endpoint_def under_endpoint_def axios_get_def
      axios_post_def axios_put_def axios_delete_def)

lemma ui_endpoint_reads:
  "ui_endpoint (axios_get ''/api/stats'')"
  "ui_endpoint (axios_get ''/api/events'')"
  "ui_endpoint (axios_get ''/api/system/metrics'')"
  by (simp_all add: ui_endpoint_def spec_endpoint_def axios_get_def ENDPOINTS_STATS_def
      ENDPOINTS_EVENTS_def API_BASE_URL_def)

lemma handleDelete_requests:
  "requests_of (fst (handleDelete confirm serve asset ui s)) =
     (if nullish asset \<or> \<not> confirm (delete_question asset) then []
      else axios_delete (asset_url asset) #
             (case fst (serve s (axios_delete (asset_url asset))) of
                Resolved d \<Rightarrow> [axios_get ENDPOINTS_ASSETS]
              | Rejected e \<Rightarrow> []))"
  using fetchAssets_requests
          [of serve "ui\<lparr>a_loading := True\<rparr>" "snd (serve s (axios_delete (asset_url asset)))"]
  by (auto simp: handleDelete_def Let_def split: prod.splits reply.splits)

text \<open>
  C4, amended. Every request that the pages send (the four handlers of the Assets page,
  and the fetches of the Dashboard, the Stats page and the Events page) targets
  \<^verbatim>\<open>/assets\<close> (GET, POST, PUT, DELETE), \<^verbatim>\<open>/events\<close> (GET), \<^verbatim>\<open>/stats\<close> (GET),
  \<^verbatim>\<open>/healthz\<close> (GET) or \<^verbatim>\<open>/system/metrics\<close> (GET) under the API base path.
\<close>

theorem requests_target_known_endpoints:
  "(\<forall>r \<in> set (requests_of (fst (fetchAssets serve ui s))). ui_endpoint r) \<and>
   (\<forall>r \<in> set (requests_of (fst (handleAddSubmit parse serve ui s))). ui_endpoint r) \<and>
   (\<forall>r \<in> set (requests_of (fst (handleEditSubmit parse serve ui s))). ui_endpoint r) \<and>
   (\<forall>r \<in> set (requests_of (fst (handleDelete confirm serve asset ui s))). ui_endpoint r) \<and>
   (\<forall>r \<in> set (fst (fetchAll net dst)). ui_endpoint r) \<and>
   (\<forall>r \<in> set (fst (fetchStats net sst)). ui_endpoint r) \<and>
   (\<forall>r \<in> set (fst (fetchEvents net est)). ui_endpoint r)"
proof -
  have a: "\<forall>r \<in> set (requests_of (fst (fetchAssets serve ui s))). ui_endpoint r"
    by (simp add: fetchAssets_requests ui_endpoint_assets)
  have b: "\<forall>r \<in> set (requests_of (fst (handleAddSubmit parse serve ui s))). ui_endpoint r"
    by (auto simp: handleAddSubmit_requests ui_endpoint_assets split: sum.splits reply.splits)
  have c: "\<forall>r \<in> set (requests_of (fst (handleEditSubmit parse serve ui s))). ui_endpoint r"
    by (auto simp: handleEditSubmit_requests ui_endpoint_assets split: sum.splits reply.splits)
  have d: "\<forall>r \<in> set (requests_of (fst (handleDelete confirm serve asset ui s))). ui_endpoint r"
    by (auto simp: handleDelete_requests ui_endpoint_assets split: reply.splits)
  have e: "\<forall>r \<in> set (fst (fetchAll net dst)). ui_endpoint r"
    by (simp add: fetchAll_def Let_def ui_endpoint_reads)
  have f: "\<forall>r \<in> set (fst (fetchStats net sst)). ui_endpoint r"
    by (simp add: fetchStats_def Let_def ui_endpoint_reads split: reply.splits)
  have g: "\<forall>r \<in> set (fst (fetchEvents net est)). ui_endpoint r"
    by (simp add: fetchEvents_def Let_def ui_endpoint_reads split: reply.splits)
  show ?thesis using a b c d e f g by blast
qed

text \<open>
  C4 as stated fails on the Dashboard: \<^verbatim>\<open>fetchAll\<close> sends
  \<^verbatim>\<open>GET /api/system/metrics\<close>, which is none of the enumerated endpoints.
\<close>

theorem system_metrics_counterexample:
  "axios_get ''/api/system/metrics'' \<in> set (fst (fetchAll unreachable dashboard_init)) \<and>
   \<not> spec_endpoint (axios_get ''/api/system/metrics'')"
  by code_simp

theorem requests_target_known_endpoints_witness:
  "axios_get ''/api/assets'' \<in> set (requests_of (fst (fetchAssets accepting assets_init 0))) \<and>
   ui_endpoint (axios_get ''/api/assets'') \<and>
   axios_post ''/api/assets''
     (JObj [(''name'', JStr ''pump''), (''type'', JStr ''hardware''),
            (''location'', JStr ''lab''), (''metadata'', JObj [(''rack'', JStr ''r1'')])])
     \<in> set (requests_of (fst (handleAddSubmit JSON_parse_at accepting add_submission 0))) \<and>
   ui_endpoint (axios_post ''/api/assets''
     (JObj [(''name'', JStr ''pump''), (''type'', JStr ''hardware''),
            (''location'', JStr ''lab''), (''metadata'', JObj [(''rack'', JStr ''r1'')])])) \<and>
   axios_put ''/api/assets/7'' (JObj [(''name'', JStr ''pump-2''), (''status'', JStr ''maintenance'')])
     \<in> set (requests_of (fst (handleEditSubmit JSON_parse_at accepting changed_edit 0))) \<and>
   ui_endpoint
     (axios_put ''/api/assets/7'' (JObj [(''name'', JStr ''pump-2''), (''status'', JStr ''maintenance'')])) \<and>
   axios_delete ''/api/assets/7''
     \<in> set (requests_of (fst (handleDelete answer_ok accepting sample_asset assets_init 0))) \<and>
   ui_endpoint (axios_delete ''/api/assets/7'') \<and>
   axios_get ''/api/system/metrics'' \<in> set (fst (fetchAll unreachable dashboard_init)) \<and>
   ui_endpoint (axios_get ''/api/system/metrics'') \<and>
   axios_get ''/api/stats'' \<in> set (fst (fetchStats unreachable stats_init)) \<and>
   ui_endpoint (axios_get ''/api/stats'') \<and>
   axios_get ''/api/events'' \<in> set (fst (fetchEvents unreachable events_init)) \<and>
   ui_endpoint (axios_get ''/api/events'')"
proof -
  have m: "axios_get ''/api/assets'' \<in> set (requests_of (fst (fetchAssets accepting assets_init 0)))"
    "axios_post ''/api/assets''
     (JObj [(''name'', JStr ''pump''), (''type'', JStr ''hardware''),
            (''location'', JStr ''lab''), (''metadata'', JObj [(''rack'', JStr ''r1'')])])
     \<in> set (requests_of (fst (handleAddSubmit JSON_parse_at accepting add_submission 0)))"
    "axios_put ''/api/assets/7'' (JObj [(''name'', JStr ''pump-2''), (''status'', JStr ''maintenance'')])
     \<in> set (requests_of (fst (handleEditSubmit JSON_parse_at accepting changed_edit 0)))"
    "axios_delete ''/api/assets/7''
     \<in> set (requests_of (fst (handleDelete answer_ok accepting sample_asset assets_init 0)))"
    "axios_get ''/api/system/metrics'' \<in> set (fst (fetchAll unreachable dashboard_init))"
    "axios_get ''/api/stats'' \<in> set (fst (fetchStats unreachable stats_init))"
    "axios_get ''/api/events'' \<in> set (fst (fetchEvents unreachable events_init))"
    by code_simp+
  show ?thesis
    using m requests_target_known_endpoints
      [of accepting assets_init 0 JSON_parse_at, THEN conjunct1]
      requests_target_known_endpoints
      [of accepting add_submission 0 JSON_parse_at, THEN conjunct2, THEN conjunct1]
      requests_target_known_endpoints
      [of accepting changed_edit 0 JSON_parse_at, THEN conjunct2, THEN conjunct2, THEN conjunct1]
      requests_target_known_endpoints
      [of accepting assets_init 0 _ answer_ok sample_asset unreachable dashboard_init stats_init events_init]
    by blast
qed

subsection \<open>The Dashboard without host metrics\<close>





lemma collect_map_ok:
  "\<forall>x \<in> set xs. \<exists>y. f x = Inr y \<Longrightarrow>
   \<exists>ys. collect (map f xs) = Inr ys \<and> map Inr ys = map f xs"
  by (induction xs) auto









subsection \<open>Titles and contents of event lines\<close>



















end
